theory Spec2Isabelle
  imports Main "HOL-Library.AList"
begin

section \<open>JavaScript values\<close>

text \<open>
  The route handler of \<^verbatim>\<open>src/routes/Instance/InstanceReDeploy.js\<close> works on untyped
  JavaScript data: records read from the key-value store, bodies returned by the node
  agent, query parameters. The model keeps them untyped. An object is an association list
  in insertion order, \<open>JNaN\<close> is the number NaN, and \<open>JPromise v\<close> is a promise that
  resolves to \<open>v\<close>. Numbers are the integers the code produces with \<^verbatim>\<open>parseInt\<close>; the
  rounding of large values to a double is not modelled. Strings are lists of 8-bit
  characters.
\<close>

datatype jsval =
    JUndefined
  | JNull
  | JBool bool
  | JNum int
  | JNaN
  | JStr string
  | JArr "jsval list"
  | JObj "(string \<times> jsval) list"
  | JPromise jsval

text \<open>ToBoolean: what \<^verbatim>\<open>!x\<close>, \<^verbatim>\<open>x || y\<close> and \<^verbatim>\<open>if (x)\<close> test.\<close>

fun truthy :: "jsval \<Rightarrow> bool" where
  "truthy JUndefined = False"
| "truthy JNull = False"
| "truthy (JBool b) = b"
| "truthy (JNum n) = (n \<noteq> 0)"
| "truthy JNaN = False"
| "truthy (JStr s) = (s \<noteq> [])"
| "truthy (JArr xs) = True"
| "truthy (JObj kvs) = True"
| "truthy (JPromise v) = True"

text \<open>The operator \<^verbatim>\<open>a || b\<close> on values already computed.\<close>

definition js_or :: "jsval \<Rightarrow> jsval \<Rightarrow> jsval" where
  "js_or a b = (if truthy a then a else b)"

text \<open>\<^verbatim>\<open>await x\<close>: a promise gives its value, any other value is itself.\<close>

fun await :: "jsval \<Rightarrow> jsval" where
  "await (JPromise v) = v"
| "await v = v"

text \<open>\<^verbatim>\<open>await Promise.all([...])\<close>: every element awaited, in order.\<close>

definition Promise_all :: "jsval list \<Rightarrow> jsval list" where
  "Promise_all xs = map await xs"

text \<open>
  Errors thrown in the source: \<^verbatim>\<open>new Error(msg)\<close>, the engine's TypeError (reading a
  property of \<^verbatim>\<open>undefined\<close> or \<^verbatim>\<open>null\<close>, calling a method that is not there; the
  text of its message is the engine's, the model says which read failed), and an error
  of the HTTP client, which carries the upstream response when there was one.
\<close>

record http_response =
  status :: int
  data :: jsval

datatype error =
    Error string
  | TypeError string
  | AxiosError string "http_response option"

fun message :: "error \<Rightarrow> string" where
  "message (Error m) = m"
| "message (TypeError m) = m"
| "message (AxiosError m r) = m"

fun response_of :: "error \<Rightarrow> http_response option" where
  "response_of (AxiosError m r) = r"
| "response_of e = None"

text \<open>
  Property read \<^verbatim>\<open>v.k\<close>. It throws on \<^verbatim>\<open>undefined\<close> and \<^verbatim>\<open>null\<close>; on an object it
  is the field or \<^verbatim>\<open>undefined\<close>. The names the source reads (\<^verbatim>\<open>Node\<close>, \<^verbatim>\<open>id\<close>,
  \<^verbatim>\<open>Id\<close>, \<^verbatim>\<open>Image\<close>, \<^verbatim>\<open>containerId\<close>, ...) are no built-in property of a string,
  number, boolean, array or promise, so there the read is \<^verbatim>\<open>undefined\<close>.
\<close>

fun read_prop :: "jsval \<Rightarrow> string \<Rightarrow> error + jsval" where
  "read_prop JUndefined k = Inl (TypeError (''Cannot read properties of undefined (reading '' @ k @ '')''))"
| "read_prop JNull k = Inl (TypeError (''Cannot read properties of null (reading '' @ k @ '')''))"
| "read_prop (JObj kvs) k = Inr (case map_of kvs k of None \<Rightarrow> JUndefined | Some v \<Rightarrow> v)"
| "read_prop v k = Inr JUndefined"

text \<open>The same read where the source has already tested the receiver to be truthy.\<close>

definition get :: "jsval \<Rightarrow> string \<Rightarrow> jsval" where
  "get v k = (case read_prop v k of Inl e \<Rightarrow> JUndefined | Inr x \<Rightarrow> x)"

subsection \<open>Strings\<close>

text \<open>The code of a character: \<^verbatim>\<open>0\<close> is 48, \<^verbatim>\<open>A\<close> is 65, \<^verbatim>\<open>a\<close> is 97.\<close>

definition code :: "char \<Rightarrow> nat" where
  "code c = of_char c"

definition is_digit :: "char \<Rightarrow> bool" where
  "is_digit c = (48 \<le> code c \<and> code c \<le> 57)"

definition digit_val :: "char \<Rightarrow> nat" where
  "digit_val c = code c - 48"

fun show_nat :: "nat \<Rightarrow> string" where
  "show_nat n = (if n < 10 then [''0123456789'' ! n]
                 else show_nat (n div 10) @ [''0123456789'' ! (n mod 10)])"

definition show_int :: "int \<Rightarrow> string" where
  "show_int i = (if i < 0 then CHR ''-'' # show_nat (nat (- i)) else show_nat (nat i))"

fun intercalate :: "string \<Rightarrow> string list \<Rightarrow> string" where
  "intercalate sep [] = []"
| "intercalate sep [x] = x"
| "intercalate sep (x # y # ys) = x @ sep @ intercalate sep (y # ys)"

text \<open>
  ToString, as a template literal \<^verbatim>\<open>`${v}`\<close> applies it. An array joins its elements
  with a comma, \<^verbatim>\<open>undefined\<close> and \<^verbatim>\<open>null\<close> elements as the empty string.
\<close>

fun to_str :: "jsval \<Rightarrow> string" where
  "to_str JUndefined = ''undefined''"
| "to_str JNull = ''null''"
| "to_str (JBool b) = (if b then ''true'' else ''false'')"
| "to_str (JNum n) = show_int n"
| "to_str JNaN = ''NaN''"
| "to_str (JStr s) = s"
| "to_str (JArr xs) =
     intercalate '','' (map (\<lambda>x. if x = JUndefined \<or> x = JNull then [] else to_str x) xs)"
| "to_str (JObj kvs) = ''[object Object]''"
| "to_str (JPromise v) = ''[object Promise]''"

text \<open>\<^verbatim>\<open>s.split(c)\<close> for a one-character separator: never empty, \<^verbatim>\<open>"".split(",")\<close> is \<^verbatim>\<open>[""]\<close>.\<close>

fun split :: "char \<Rightarrow> string \<Rightarrow> string list" where
  "split c [] = [[]]"
| "split c (x # xs) =
     (if x = c then [] # split c xs
      else (case split c xs of [] \<Rightarrow> [[x]] | y # ys \<Rightarrow> (x # y) # ys))"

text \<open>
  \<^verbatim>\<open>parseInt(s)\<close> with no radix: leading white space is skipped, then an optional sign,
  then \<^verbatim>\<open>0x\<close> or \<^verbatim>\<open>0X\<close> selects radix 16, then the longest prefix of digits of the
  radix is read; with no digit the result is NaN, here \<open>None\<close>.
\<close>

definition is_ws :: "char \<Rightarrow> bool" where
  "is_ws c = (c \<in> set [CHR 0x09, CHR 0x0A, CHR 0x0B, CHR 0x0C, CHR 0x0D, CHR 0x20, CHR 0xA0])"

definition is_hex_digit :: "char \<Rightarrow> bool" where
  "is_hex_digit c = (is_digit c \<or> (97 \<le> code c \<and> code c \<le> 102) \<or> (65 \<le> code c \<and> code c \<le> 70))"

definition hex_val :: "char \<Rightarrow> nat" where
  "hex_val c = (if is_digit c then code c - 48
                else if 97 \<le> code c then code c - 87 else code c - 55)"

definition strip_sign :: "string \<Rightarrow> bool \<times> string" where
  "strip_sign s = (case s of
       [] \<Rightarrow> (False, [])
     | c # r \<Rightarrow> if c = CHR ''-'' then (True, r) else if c = CHR ''+'' then (False, r) else (False, s))"

definition strip_radix :: "string \<Rightarrow> bool \<times> string" where
  "strip_radix s = (case s of
       a # b # r \<Rightarrow> if a = CHR ''0'' \<and> (b = CHR ''x'' \<or> b = CHR ''X'') then (True, r) else (False, s)
     | _ \<Rightarrow> (False, s))"

definition parseInt :: "string \<Rightarrow> int option" where
  "parseInt s =
     (let (neg, s2) = strip_sign (dropWhile is_ws s);
          (hex, s3) = strip_radix s2;
          z = takeWhile (if hex then is_hex_digit else is_digit) s3;
          n = (if hex then foldl (\<lambda>a c. 16 * a + hex_val c) 0 z
               else foldl (\<lambda>a c. 10 * a + digit_val c) 0 z)
      in if z = [] then None else Some (if neg then - int n else int n))"

definition isNaN :: "int option \<Rightarrow> bool" where
  "isNaN r = (r = None)"

text \<open>The number a \<^verbatim>\<open>parseInt\<close> result is, as a value.\<close>

definition num :: "int option \<Rightarrow> jsval" where
  "num r = (case r of None \<Rightarrow> JNaN | Some n \<Rightarrow> JNum n)"

subsection \<open>Regular expressions\<close>

text \<open>
  The validator's pattern \<^verbatim>\<open>/^(\d+:\d+)(,\d+:\d+)*$/\<close> is kept as a syntax tree and
  tested by derivatives; the anchors make \<^verbatim>\<open>test\<close> a match of the whole string.
  \<^verbatim>\<open>\d\<close> is an ASCII digit.
\<close>

datatype rx =
    RNone
  | REps
  | RDigit
  | RChr char
  | RAlt rx rx
  | RSeq rx rx
  | RStar rx

definition RPlus :: "rx \<Rightarrow> rx" where
  "RPlus r = RSeq r (RStar r)"

fun nullable :: "rx \<Rightarrow> bool" where
  "nullable RNone = False"
| "nullable REps = True"
| "nullable RDigit = False"
| "nullable (RChr c) = False"
| "nullable (RAlt r s) = (nullable r \<or> nullable s)"
| "nullable (RSeq r s) = (nullable r \<and> nullable s)"
| "nullable (RStar r) = True"

fun deriv :: "char \<Rightarrow> rx \<Rightarrow> rx" where
  "deriv c RNone = RNone"
| "deriv c REps = RNone"
| "deriv c RDigit = (if is_digit c then REps else RNone)"
| "deriv c (RChr d) = (if c = d then REps else RNone)"
| "deriv c (RAlt r s) = RAlt (deriv c r) (deriv c s)"
| "deriv c (RSeq r s) =
     (if nullable r then RAlt (RSeq (deriv c r) s) (deriv c s) else RSeq (deriv c r) s)"
| "deriv c (RStar r) = RSeq (deriv c r) (RStar r)"

definition rx_test :: "rx \<Rightarrow> string \<Rightarrow> bool" where
  "rx_test r s = nullable (foldl (\<lambda>r c. deriv c r) r s)"

definition portPair :: rx where
  "portPair = RSeq (RPlus RDigit) (RSeq (RChr CHR '':'') (RPlus RDigit))"

definition portRegex :: rx where
  "portRegex = RSeq portPair (RStar (RSeq (RChr CHR '','') portPair))"

text \<open>What it means for a string to match a pattern.\<close>

inductive matches :: "rx \<Rightarrow> string \<Rightarrow> bool" where
  m_eps: "matches REps []"
| m_digit: "is_digit c \<Longrightarrow> matches RDigit [c]"
| m_chr: "matches (RChr c) [c]"
| m_altl: "matches r w \<Longrightarrow> matches (RAlt r s) w"
| m_altr: "matches s w \<Longrightarrow> matches (RAlt r s) w"
| m_seq: "matches r u \<Longrightarrow> matches s v \<Longrightarrow> matches (RSeq r s) (u @ v)"
| m_star0: "matches (RStar r) []"
| m_star: "matches r u \<Longrightarrow> matches (RStar r) v \<Longrightarrow> matches (RStar r) (u @ v)"

text \<open>
  The image name in parentheses, \<^verbatim>\<open>image.match(/\(([^)]+)\)/)\<close>: the leftmost \<^verbatim>\<open>(\<close>
  that is followed by at least one character other than \<^verbatim>\<open>)\<close> and then by \<^verbatim>\<open>)\<close>.
  The class \<^verbatim>\<open>[^)]\<close> is greedy and cannot give back a character to \<^verbatim>\<open>\)\<close>, so the
  group is the whole run after the parenthesis. \<open>None\<close> is \<^verbatim>\<open>null\<close>, no match.
\<close>

fun image_match :: "string \<Rightarrow> string option" where
  "image_match [] = None"
| "image_match (c # cs) =
     (if c = CHR ''('' \<and> takeWhile (\<lambda>x. x \<noteq> CHR '')'') cs \<noteq> []
         \<and> dropWhile (\<lambda>x. x \<noteq> CHR '')'') cs \<noteq> []
      then Some (takeWhile (\<lambda>x. x \<noteq> CHR '')'') cs)
      else image_match cs)"

section \<open>The request and what the handler answers\<close>

text \<open>
  \<^verbatim>\<open>req.query\<close> maps a parameter name to its string, \<^verbatim>\<open>req.params.id\<close> is the path
  segment, \<^verbatim>\<open>req.user\<close> is what the session holds.
\<close>

record user_info =
  userId :: string
  username :: string
  admin :: bool

record request =
  params_id :: string
  query :: "string \<rightharpoonup> string"
  user :: "user_info option"
  ip :: string

text \<open>A query parameter as a value: absent is \<^verbatim>\<open>undefined\<close>.\<close>

definition qv :: "string option \<Rightarrow> jsval" where
  "qv p = (case p of None \<Rightarrow> JUndefined | Some s \<Rightarrow> JStr s)"

text \<open>
  \<open>Redirect n url\<close> is \<^verbatim>\<open>res.status(n).redirect(url)\<close>, \<open>Json n body\<close> is
  \<^verbatim>\<open>res.status(n).json(body)\<close>.
\<close>

datatype response =
    Redirect int string
  | Json int jsval

subsection \<open>validateRedeploymentParams\<close>

definition missingParams :: "(string \<rightharpoonup> string) \<Rightarrow> string list" where
  "missingParams q =
     (if \<not> truthy (qv (q ''image'')) then [''image''] else []) @
     (if \<not> truthy (qv (q ''memory'')) then [''memory''] else []) @
     (if \<not> truthy (qv (q ''cpu'')) then [''cpu''] else []) @
     (if \<not> truthy (qv (q ''ports'')) then [''ports''] else []) @
     (if \<not> truthy (qv (q ''name'')) then [''name''] else []) @
     (if \<not> truthy (qv (q ''user'')) then [''user''] else []) @
     (if \<not> truthy (qv (q ''primary'')) then [''primary''] else [])"

text \<open>\<open>None\<close> is \<^verbatim>\<open>next()\<close>: the request goes on to the handler.\<close>

definition validateRedeploymentParams :: "request \<Rightarrow> response option" where
  "validateRedeploymentParams req =
     (let q = query req in
      if \<not> truthy (JStr (params_id req))
      then Some (Redirect 400 ''/admin/instances?error=missing_instance_id'')
      else if length (missingParams q) > 0
      then Some (Json 400 (JObj [(''error'', JStr ''Missing required parameters''),
                                 (''missing'', JArr (map JStr (missingParams q)))]))
      else if \<not> rx_test portRegex (to_str (qv (q ''ports'')))
      then Some (Json 400 (JObj [(''error'', JStr ''Invalid port format''),
             (''details'', JStr (''Ports must be in format '' @ [CHR 0x22] @ ''hostPort:containerPort''
                                @ [CHR 0x22] @ '' separated by commas''))]))
      else if isNaN (parseInt (to_str (qv (q ''memory''))))
      then Some (Json 400 (JObj [(''error'', JStr ''Invalid memory value''),
                                 (''details'', JStr ''Memory must be a number'')]))
      else if isNaN (parseInt (to_str (qv (q ''cpu''))))
      then Some (Json 400 (JObj [(''error'', JStr ''Invalid CPU value''),
                                 (''details'', JStr ''CPU must be a number'')]))
      else None)"


section \<open>The collaborators\<close>

text \<open>
  What the handler does to the outside, in the order it does it: reads and writes of the
  store, HTTP requests to the node agent, audit records, lines on the error console.
\<close>

record http_config =
  http_method :: string
  url :: string
  timeout :: "int option"
  auth_username :: string
  auth_password :: jsval
  headers :: "(string \<times> string) list"
  payload :: jsval

datatype event =
    DbGet string
  | DbSet string jsval
  | Http http_config
  | Audit string string string string jsval
  | ConsoleError string

text \<open>
  Modelled from the spec: \<^verbatim>\<open>handlers/db.js\<close> is not among the sources. The spec has it
  as a get/set-by-key store with no transactional guarantees whose reads and writes are
  the points where the operation waits, and the source awaits every call: \<^verbatim>\<open>db.get\<close>
  returns a promise, which resolves to the stored value or to \<^verbatim>\<open>undefined\<close> for an
  absent key. The store is a parameter: \<open>kv_get\<close> is what a read resolves to in a state
  of the store, \<open>kv_set\<close> the state after a write; a store may drop a write.
  \<open>axios\<close> is the node agent as the HTTP client sees it, \<open>uuid\<close> and \<open>now\<close> are the
  values of \<^verbatim>\<open>uuid()\<close> and \<^verbatim>\<open>new Date().toISOString()\<close> during the request.
\<close>

record 's env =
  kv_get :: "'s \<Rightarrow> string \<Rightarrow> jsval"
  kv_set :: "'s \<Rightarrow> string \<Rightarrow> jsval \<Rightarrow> 's"
  axios :: "http_config \<Rightarrow> error + http_response"
  uuid :: string
  now :: string

definition db_get :: "'s env \<Rightarrow> 's \<Rightarrow> string \<Rightarrow> jsval" where
  "db_get env st k = JPromise (kv_get env st k)"

definition db_set :: "'s env \<Rightarrow> 's \<Rightarrow> string \<Rightarrow> jsval \<Rightarrow> 's" where
  "db_set env st k v = kv_set env st k v"

text \<open>The store that keeps what it is given: a function from keys to values.\<close>

definition keyv :: "(http_config \<Rightarrow> error + http_response) \<Rightarrow> string \<Rightarrow> string
    \<Rightarrow> (string \<Rightarrow> jsval) env" where
  "keyv ax u n = \<lparr>kv_get = (\<lambda>s k. s k), kv_set = (\<lambda>s k v. s(k := v)), axios = ax, uuid = u, now = n\<rparr>"

subsection \<open>Array methods with the source's callbacks\<close>

text \<open>\<^verbatim>\<open>xs.find(i => i.Image === image)\<close>\<close>

fun find_loop :: "jsval list \<Rightarrow> string \<Rightarrow> error + jsval" where
  "find_loop [] img = Inr JUndefined"
| "find_loop (i # rest) img =
     (case read_prop i ''Image'' of
        Inl e \<Rightarrow> Inl e
      | Inr v \<Rightarrow> if v = JStr img then Inr i else find_loop rest img)"

definition find_Image :: "jsval \<Rightarrow> string \<Rightarrow> error + jsval" where
  "find_Image rawImages img =
     (case rawImages of
        JArr xs \<Rightarrow> find_loop xs img
      | JUndefined \<Rightarrow> Inl (TypeError ''Cannot read properties of undefined (reading find)'')
      | JNull \<Rightarrow> Inl (TypeError ''Cannot read properties of null (reading find)'')
      | _ \<Rightarrow> Inl (TypeError ''rawImages.find is not a function''))"

text \<open>\<^verbatim>\<open>xs.filter(instance => instance.Id !== id)\<close>\<close>

fun filter_loop :: "jsval list \<Rightarrow> string \<Rightarrow> error + jsval list" where
  "filter_loop [] iid = Inr []"
| "filter_loop (x # xs) iid =
     (case read_prop x ''Id'' of
        Inl e \<Rightarrow> Inl e
      | Inr v \<Rightarrow> (case filter_loop xs iid of
                   Inl e \<Rightarrow> Inl e
                 | Inr ys \<Rightarrow> Inr (if v \<noteq> JStr iid then x # ys else ys)))"

definition filter_Id :: "jsval \<Rightarrow> string \<Rightarrow> error + jsval list" where
  "filter_Id v iid =
     (case v of
        JArr xs \<Rightarrow> filter_loop xs iid
      | JUndefined \<Rightarrow> Inl (TypeError ''Cannot read properties of undefined (reading filter)'')
      | JNull \<Rightarrow> Inl (TypeError ''Cannot read properties of null (reading filter)'')
      | _ \<Rightarrow> Inl (TypeError ''filter is not a function''))"

text \<open>\<^verbatim>\<open>v?.some(i => i.Id === id)\<close>: \<^verbatim>\<open>undefined\<close> when \<^verbatim>\<open>v\<close> is \<^verbatim>\<open>undefined\<close> or \<^verbatim>\<open>null\<close>.\<close>

fun some_loop :: "jsval list \<Rightarrow> string \<Rightarrow> error + bool" where
  "some_loop [] iid = Inr False"
| "some_loop (x # xs) iid =
     (case read_prop x ''Id'' of
        Inl e \<Rightarrow> Inl e
      | Inr v \<Rightarrow> if v = JStr iid then Inr True else some_loop xs iid)"

definition some_Id :: "jsval \<Rightarrow> string \<Rightarrow> error + jsval" where
  "some_Id v iid =
     (case v of
        JUndefined \<Rightarrow> Inr JUndefined
      | JNull \<Rightarrow> Inr JUndefined
      | JArr xs \<Rightarrow> (case some_loop xs iid of Inl e \<Rightarrow> Inl e | Inr b \<Rightarrow> Inr (JBool b))
      | _ \<Rightarrow> Inl (TypeError ''some is not a function''))"

definition isArray :: "jsval \<Rightarrow> bool" where
  "isArray v = (case v of JArr xs \<Rightarrow> True | _ \<Rightarrow> False)"


section \<open>prepareRequestData\<close>

text \<open>
  One turn of \<^verbatim>\<open>ports.split(',').forEach(portMapping => ...)\<close>: the destructuring
  \<^verbatim>\<open>[hostPort, containerPort] = portMapping.split(':')\<close> takes the first two parts, a
  missing second part is \<^verbatim>\<open>undefined\<close>; then the three checks. The result is the pair
  the turn goes on to enter in the two tables.
\<close>

definition portMapping_check :: "string \<Rightarrow> error + (string \<times> string)" where
  "portMapping_check portMapping =
     (case split CHR '':'' portMapping of
        hostPort # containerPort # others \<Rightarrow>
          if \<not> truthy (JStr hostPort) \<or> \<not> truthy (JStr containerPort)
          then Inl (Error (''Invalid port mapping: '' @ portMapping))
          else if isNaN (parseInt hostPort)
          then Inl (Error (''Invalid host port: '' @ hostPort))
          else if isNaN (parseInt containerPort)
          then Inl (Error (''Invalid container port: '' @ containerPort))
          else Inr (hostPort, containerPort)
      | _ \<Rightarrow> Inl (Error (''Invalid port mapping: '' @ portMapping)))"

text \<open>
  The loop, with the tables \<^verbatim>\<open>ExposedPorts\<close> and \<^verbatim>\<open>PortBindings\<close> as its state. An
  assignment \<^verbatim>\<open>obj[key] = v\<close> replaces the value of a key that is there and appends a
  new key otherwise. A throw leaves the loop at once.
\<close>

fun forEach_ports :: "string list \<Rightarrow> (string \<times> jsval) list \<times> (string \<times> jsval) list
    \<Rightarrow> error + (string \<times> jsval) list \<times> (string \<times> jsval) list" where
  "forEach_ports [] tables = Inr tables"
| "forEach_ports (portMapping # rest) (ExposedPorts, PortBindings) =
     (case portMapping_check portMapping of
        Inl e \<Rightarrow> Inl e
      | Inr (hostPort, containerPort) \<Rightarrow>
          forEach_ports rest
            (AList.update (containerPort @ ''/tcp'') (JObj []) ExposedPorts,
             AList.update (containerPort @ ''/tcp'') (JArr [JObj [(''HostPort'', JStr hostPort)]])
               PortBindings))"

text \<open>\<^verbatim>\<open>if (ports) { ports.split(',').forEach(...) }\<close>\<close>

definition process_ports :: "jsval \<Rightarrow> error + (string \<times> jsval) list \<times> (string \<times> jsval) list" where
  "process_ports ports =
     (if \<not> truthy ports then Inr ([], [])
      else (case ports of
              JStr s \<Rightarrow> forEach_ports (split CHR '','' s) ([], [])
            | _ \<Rightarrow> Inl (TypeError ''ports.split is not a function'')))"

text \<open>The body of the \<^verbatim>\<open>try\<close> block.\<close>

definition prepare_body :: "'s env \<Rightarrow> 's \<Rightarrow> string \<Rightarrow> jsval \<Rightarrow> jsval \<Rightarrow> jsval \<Rightarrow> jsval \<Rightarrow> jsval
    \<Rightarrow> string \<Rightarrow> jsval \<Rightarrow> jsval \<Rightarrow> error + http_config" where
  "prepare_body env st img memory cpu ports name node iid containerId Env =
     (let rawImages = js_or (await (db_get env st ''images'')) (JArr []) in
      case find_Image rawImages img of
        Inl e \<Rightarrow> Inl e
      | Inr imageData \<Rightarrow>
          if \<not> truthy imageData then Inl (Error (''Image '' @ img @ '' not found in database''))
          else (case read_prop node ''address'' of
            Inl e \<Rightarrow> Inl e
          | Inr address \<Rightarrow>
             (case process_ports ports of
                Inl e \<Rightarrow> Inl e
              | Inr (ExposedPorts, PortBindings) \<Rightarrow>
                  Inr \<lparr>http_method = ''post'',
                       url = ''http://'' @ to_str address @ '':'' @ to_str (get node ''port'')
                             @ ''/instances/redeploy/'' @ to_str containerId,
                       timeout = Some 30000,
                       auth_username = ''Skyport'',
                       auth_password = get node ''apiKey'',
                       headers = [(''Content-Type'', ''application/json''),
                                  (''X-Request-ID'', uuid env)],
                       payload = JObj
                         [(''Name'', name),
                          (''Id'', JStr iid),
                          (''Image'', JStr img),
                          (''Env'', if isArray Env then Env else JArr []),
                          (''Scripts'', js_or (get imageData ''Scripts'') (JArr [])),
                          (''Memory'', num (parseInt (to_str memory))),
                          (''Cpu'', num (parseInt (to_str cpu))),
                          (''ExposedPorts'', JObj ExposedPorts),
                          (''PortBindings'', JObj PortBindings),
                          (''AltImages'', js_or (get imageData ''AltImages'') (JArr [])),
                          (''Labels'', JObj
                             [(''com.skyport.instance'', JStr ''true''),
                              (''com.skyport.instance.id'', JStr iid),
                              (''com.skyport.managed'', JStr ''true'')])]\<rparr>)))"

text \<open>
  The function: it reads \<^verbatim>\<open>images\<close> once, and its \<^verbatim>\<open>catch\<close> writes a line on the
  console and throws the error again.
\<close>

definition prepareRequestData :: "'s env \<Rightarrow> 's \<Rightarrow> string \<Rightarrow> jsval \<Rightarrow> jsval \<Rightarrow> jsval \<Rightarrow> jsval
    \<Rightarrow> jsval \<Rightarrow> string \<Rightarrow> jsval \<Rightarrow> jsval \<Rightarrow> (error + http_config) \<times> event list" where
  "prepareRequestData env st img memory cpu ports name node iid containerId Env =
     (case prepare_body env st img memory cpu ports name node iid containerId Env of
        Inl e \<Rightarrow> (Inl e, [DbGet ''images'', ConsoleError ''Error preparing request data:''])
      | Inr requestData \<Rightarrow> (Inr requestData, [DbGet ''images'']))"

section \<open>updateDatabaseWithNewInstance\<close>

text \<open>
  The test after the read-back:
  \<^verbatim>\<open>!v[0]?.some(i => i.Id === id) || !v[1]?.some(i => i.Id === id) || !v[2]\<close>,
  evaluated from the left and only as far as needed.
\<close>

definition verification_failed :: "jsval list \<Rightarrow> string \<Rightarrow> error + bool" where
  "verification_failed verification iid =
     (case some_Id (verification ! 0) iid of
        Inl e \<Rightarrow> Inl e
      | Inr r0 \<Rightarrow>
          if \<not> truthy r0 then Inr True
          else (case some_Id (verification ! 1) iid of
                  Inl e \<Rightarrow> Inl e
                | Inr r1 \<Rightarrow>
                    if \<not> truthy r1 then Inr True
                    else Inr (\<not> truthy (verification ! 2))))"

text \<open>The record \<^verbatim>\<open>instanceData\<close>.\<close>

definition instanceData :: "'s env \<Rightarrow> jsval \<Rightarrow> jsval \<Rightarrow> jsval \<Rightarrow> jsval \<Rightarrow> string \<Rightarrow> jsval \<Rightarrow> jsval
    \<Rightarrow> jsval \<Rightarrow> jsval \<Rightarrow> jsval \<Rightarrow> string \<Rightarrow> jsval \<Rightarrow> jsval \<Rightarrow> jsval" where
  "instanceData env imageData containerId userId' node img memory cpu ports primary name iid Env
     imagedata =
     JObj [(''Name'', name),
           (''Id'', JStr iid),
           (''Node'', node),
           (''User'', userId'),
           (''ContainerId'', containerId),
           (''VolumeId'', JStr iid),
           (''Memory'', num (parseInt (to_str memory))),
           (''Cpu'', num (parseInt (to_str cpu))),
           (''Ports'', ports),
           (''Primary'', primary),
           (''Env'', if isArray Env then Env else JArr []),
           (''Image'', JStr img),
           (''AltImages'', js_or (get imageData ''AltImages'') (JArr [])),
           (''imageData'', js_or imagedata (JObj [])),
           (''LastUpdated'', JStr (now env))]"

text \<open>
  The body of the \<^verbatim>\<open>try\<close> block, in three parts. First the new record and the two
  lists that hold it: the image entry is looked up again, the record is built, the two
  lists are read, the old entry is filtered out of each and the record is pushed. In
  \<^verbatim>\<open>Promise.all([db.get(k) || [], db.get('instances') || []])\<close> the operator
  \<^verbatim>\<open>||\<close> is applied to what \<^verbatim>\<open>db.get\<close> returns, before anything is awaited.
\<close>

definition update_lists :: "'s env \<Rightarrow> 's \<Rightarrow> jsval \<Rightarrow> jsval \<Rightarrow> jsval \<Rightarrow> string \<Rightarrow> jsval \<Rightarrow> jsval
    \<Rightarrow> jsval \<Rightarrow> jsval \<Rightarrow> jsval \<Rightarrow> string \<Rightarrow> jsval \<Rightarrow> jsval
    \<Rightarrow> (error + jsval \<times> jsval list \<times> jsval list) \<times> event list" where
  "update_lists env st responseData userId' node img memory cpu ports primary name iid Env imagedata =
     (let rawImages = js_or (await (db_get env st ''images'')) (JArr []);
          t0 = [DbGet ''images'']
      in case find_Image rawImages img of
        Inl e \<Rightarrow> (Inl e, t0)
      | Inr found \<Rightarrow>
         (case read_prop responseData ''containerId'' of
            Inl e \<Rightarrow> (Inl e, t0)
          | Inr containerId \<Rightarrow>
             (let imageData = js_or found (JObj [(''AltImages'', JArr [])]);
                  inst = instanceData env imageData containerId userId' node img memory cpu ports
                           primary name iid Env imagedata;
                  ku = to_str userId' @ ''_instances'';
                  lists = Promise_all [js_or (db_get env st ku) (JArr []),
                                       js_or (db_get env st ''instances'') (JArr [])];
                  userInstances = lists ! 0;
                  globalInstances = lists ! 1;
                  t1 = t0 @ [DbGet ku, DbGet ''instances'']
              in case filter_Id userInstances iid of
                Inl e \<Rightarrow> (Inl e, t1)
              | Inr filteredUser \<Rightarrow>
                 (case filter_Id globalInstances iid of
                    Inl e \<Rightarrow> (Inl e, t1)
                  | Inr filteredGlobal \<Rightarrow>
                      (Inr (inst, filteredUser @ [inst], filteredGlobal @ [inst]), t1)))))"

text \<open>Then the three writes, one after the other.\<close>

definition update_writes :: "'s env \<Rightarrow> 's \<Rightarrow> jsval \<Rightarrow> string \<Rightarrow> jsval \<Rightarrow> jsval list \<Rightarrow> jsval list \<Rightarrow> 's" where
  "update_writes env st userId' iid inst updatedUserInstances updatedGlobalInstances =
     (let st1 = db_set env st (to_str userId' @ ''_instances'') (JArr updatedUserInstances);
          st2 = db_set env st1 ''instances'' (JArr updatedGlobalInstances)
      in db_set env st2 (iid @ ''_instance'') inst)"

text \<open>Then the three keys are read back and tested.\<close>

definition update_verify :: "'s env \<Rightarrow> 's \<Rightarrow> jsval \<Rightarrow> string \<Rightarrow> error + unit" where
  "update_verify env st userId' iid =
     (let verification = Promise_all [db_get env st (to_str userId' @ ''_instances''),
                                      db_get env st ''instances'',
                                      db_get env st (iid @ ''_instance'')]
      in case verification_failed verification iid of
        Inl e \<Rightarrow> Inl e
      | Inr failed \<Rightarrow>
          if failed then Inl (Error ''Database verification failed after update'') else Inr ())"

text \<open>The whole body: its result, the store it leaves and what it did.\<close>

definition update_body :: "'s env \<Rightarrow> 's \<Rightarrow> jsval \<Rightarrow> jsval \<Rightarrow> jsval \<Rightarrow> string \<Rightarrow> jsval \<Rightarrow> jsval
    \<Rightarrow> jsval \<Rightarrow> jsval \<Rightarrow> jsval \<Rightarrow> string \<Rightarrow> jsval \<Rightarrow> jsval \<Rightarrow> (error + unit) \<times> 's \<times> event list" where
  "update_body env st responseData userId' node img memory cpu ports primary name iid Env imagedata =
     (case update_lists env st responseData userId' node img memory cpu ports primary name iid Env
             imagedata of
        (Inl e, t1) \<Rightarrow> (Inl e, st, t1)
      | (Inr (inst, updatedUserInstances, updatedGlobalInstances), t1) \<Rightarrow>
          (let st3 = update_writes env st userId' iid inst updatedUserInstances
                       updatedGlobalInstances
           in (update_verify env st3 userId' iid, st3,
               t1 @ [DbSet (to_str userId' @ ''_instances'') (JArr updatedUserInstances),
                     DbSet ''instances'' (JArr updatedGlobalInstances),
                     DbSet (iid @ ''_instance'') inst,
                     DbGet (to_str userId' @ ''_instances''), DbGet ''instances'',
                     DbGet (iid @ ''_instance'')])))"

text \<open>The function: its \<^verbatim>\<open>catch\<close> writes a line on the console and throws again.\<close>

definition updateDatabaseWithNewInstance :: "'s env \<Rightarrow> 's \<Rightarrow> jsval \<Rightarrow> jsval \<Rightarrow> jsval \<Rightarrow> string
    \<Rightarrow> jsval \<Rightarrow> jsval \<Rightarrow> jsval \<Rightarrow> jsval \<Rightarrow> jsval \<Rightarrow> string \<Rightarrow> jsval \<Rightarrow> jsval
    \<Rightarrow> (error + unit) \<times> 's \<times> event list" where
  "updateDatabaseWithNewInstance env st responseData userId' node img memory cpu ports primary name
     iid Env imagedata =
     (case update_body env st responseData userId' node img memory cpu ports primary name iid Env
             imagedata of
        (Inl e, st', t) \<Rightarrow> (Inl e, st', t @ [ConsoleError ''Database update error:''])
      | (Inr u, st', t) \<Rightarrow> (Inr u, st', t))"


section \<open>The route GET /instances/redeploy/:id\<close>

subsection \<open>isAdmin\<close>

text \<open>The middleware lets an administrator through and turns anyone else away.\<close>

definition isAdmin :: "request \<Rightarrow> response \<times> event list + user_info" where
  "isAdmin req =
     (case user req of
        None \<Rightarrow> Inl (Redirect 403 ''../'',
                     [Audit ''unknown'' ''unknown'' ''unauthorized_access:admin_route'' (ip req)
                        JUndefined])
      | Some u \<Rightarrow>
          if \<not> admin u
          then Inl (Redirect 403 ''../'',
                    [Audit (to_str (js_or (JStr (userId u)) (JStr ''unknown'')))
                           (to_str (js_or (JStr (username u)) (JStr ''unknown'')))
                           ''unauthorized_access:admin_route'' (ip req) JUndefined])
          else Inr u)"

subsection \<open>The handler\<close>

text \<open>
  \<^verbatim>\<open>error.response ? {status, data} : {message}\<close>, computed for the audit record of a
  failed redeploy call and for the body of the last \<^verbatim>\<open>catch\<close>.
\<close>

definition errorDetails :: "error \<Rightarrow> jsval" where
  "errorDetails e =
     (case response_of e of
        Some r \<Rightarrow> JObj [(''status'', JNum (status r)), (''data'', data r)]
      | None \<Rightarrow> JObj [(''message'', JStr (message e))])"

text \<open>The \<^verbatim>\<open>catch\<close> around the whole handler.\<close>

definition catch_all :: "error \<Rightarrow> response" where
  "catch_all e =
     Json 500 (JObj [(''error'', JStr ''Instance redeployment failed''),
                     (''details'', errorDetails e),
                     (''suggestion'', JStr ''Check logs for more details and try again'')])"

text \<open>A request to the node agent with the node's credentials and nothing else.\<close>

definition node_request :: "string \<Rightarrow> jsval \<Rightarrow> jsval \<Rightarrow> http_config" where
  "node_request m node target =
     \<lparr>http_method = m,
      url = ''http://'' @ to_str (get node ''address'') @ '':'' @ to_str (get node ''port'')
            @ ''/instances/'' @ to_str target,
      timeout = None,
      auth_username = ''Skyport'',
      auth_password = get node ''apiKey'',
      headers = [],
      payload = JUndefined\<rparr>"

text \<open>
  A part of the handler ends in one of three ways: it has answered the request, it has
  thrown to the \<^verbatim>\<open>catch\<close> around the handler, or it goes on with what it found.
\<close>

datatype 'a stage =
    Responded response
  | Threw error
  | Continue 'a

record ctx =
  ctx_instance :: jsval
  ctx_node :: jsval
  ctx_shortimage :: string
  ctx_response :: http_response

text \<open>
  The handler up to and with the redeploy call: the instance record, its node, the image
  name, the node record, the check that the container exists, the request, the call.
\<close>

definition handler_resolve :: "'s env \<Rightarrow> 's \<Rightarrow> user_info \<Rightarrow> request \<Rightarrow> ctx stage \<times> event list" where
  "handler_resolve env st u req =
     (let iid = params_id req;
          q = query req;
          inst = await (db_get env st (iid @ ''_instance''));
          t1 = [DbGet (iid @ ''_instance'')]
      in
      if \<not> truthy inst
      then (Responded (Redirect 404 ''/admin/instances?error=instance_not_found''),
            t1 @ [Audit (userId u) (username u) ''instance:redeploy_fail:not_found'' (ip req)
                    (JObj [(''instanceId'', JStr iid)])])
      else (case read_prop (get inst ''Node'') ''id'' of
        Inl e \<Rightarrow> (Threw e, t1)
      | Inr nodeId \<Rightarrow>
      if \<not> truthy nodeId
      then (Responded (Json 400 (JObj [(''error'', JStr ''Instance has no associated node'')])), t1)
      else (case q ''image'' of
        None \<Rightarrow> (Threw (TypeError ''Cannot read properties of undefined (reading match)''), t1)
      | Some img \<Rightarrow>
      (case image_match img of
        None \<Rightarrow>
          (Responded (Json 400 (JObj [(''error'', JStr ''Invalid image format''),
             (''details'', JStr ''Image must contain the actual image name in parentheses'')])),
           t1)
      | Some shortimage \<Rightarrow>
      (let node = await (db_get env st (to_str nodeId @ ''_node''));
           t2 = t1 @ [DbGet (to_str nodeId @ ''_node'')]
       in
       if \<not> truthy node
       then (Responded (Json 400 (JObj [(''error'', JStr ''Invalid node''),
               (''details'', JStr ''The node associated with this instance no longer exists'')])),
             t2 @ [Audit (userId u) (username u) ''instance:redeploy_fail:invalid_node'' (ip req)
                     (JObj [(''nodeId'', nodeId)])])
       else
       (let checkRequest = node_request ''get'' node (get inst ''ContainerId'');
            t3 = t2 @ [Http checkRequest];
            checked = (case axios env checkRequest of
                         Inl e \<Rightarrow> Inl e
                       | Inr containerCheck \<Rightarrow>
                           if \<not> truthy (data containerCheck)
                           then Inl (Error ''Container not found'') else Inr ())
        in case checked of
          Inl checkError \<Rightarrow>
            (Responded (Json 400 (JObj [(''error'', JStr ''Container check failed''),
               (''details'', JStr ''The existing container could not be verified'')])),
             t3 @ [ConsoleError ''Container check failed:'',
                   Audit (userId u) (username u) ''instance:redeploy_fail:container_check''
                     (ip req)
                     (JObj [(''instanceId'', JStr iid), (''error'', JStr (message checkError))])])
        | Inr ok \<Rightarrow>
        (case prepareRequestData env st shortimage (qv (q ''memory'')) (qv (q ''cpu''))
                (qv (q ''ports'')) (qv (q ''name'')) node iid (get inst ''ContainerId'')
                (get inst ''Env'') of
           (Inl e, tp) \<Rightarrow> (Threw e, t3 @ tp)
         | (Inr requestData, tp) \<Rightarrow>
         (case axios env requestData of
            Inl e \<Rightarrow>
              (Threw e,
               t3 @ tp @ [Http requestData, ConsoleError ''Redeployment API error:'',
                 Audit (userId u) (username u) ''instance:redeploy_fail:api_error'' (ip req)
                   (JObj [(''instanceId'', JStr iid), (''error'', errorDetails e)])])
          | Inr response \<Rightarrow>
              (Continue \<lparr>ctx_instance = inst, ctx_node = node, ctx_shortimage = shortimage,
                          ctx_response = response\<rparr>,
               t3 @ tp @ [Http requestData])))))))))"

text \<open>
  The attempt to take the redeployment back after a failed update: a DELETE for the
  container the node agent has just made. Whatever goes wrong in it is written on the
  console and goes no further.
\<close>

definition rollback :: "'s env \<Rightarrow> jsval \<Rightarrow> http_response \<Rightarrow> event list" where
  "rollback env node response =
     (case read_prop (data response) ''containerId'' of
        Inl rollbackError \<Rightarrow> [ConsoleError ''Rollback failed:'']
      | Inr containerId \<Rightarrow>
          Http (node_request ''delete'' node containerId) #
          (case axios env (node_request ''delete'' node containerId) of
             Inl rollbackError \<Rightarrow> [ConsoleError ''Rollback failed:'']
           | Inr r \<Rightarrow> []))"

text \<open>The handler's call of \<^verbatim>\<open>updateDatabaseWithNewInstance\<close>, with its arguments.\<close>

definition persist_call :: "'s env \<Rightarrow> 's \<Rightarrow> request \<Rightarrow> ctx \<Rightarrow> (error + unit) \<times> 's \<times> event list" where
  "persist_call env st req c =
     updateDatabaseWithNewInstance env st (data (ctx_response c)) (qv (query req ''user''))
       (ctx_node c) (ctx_shortimage c) (qv (query req ''memory'')) (qv (query req ''cpu''))
       (qv (query req ''ports'')) (qv (query req ''primary'')) (qv (query req ''name''))
       (params_id req) (get (ctx_instance c) ''Env'') (get (ctx_instance c) ''imageData'')"

text \<open>The rest of the handler: the update of the store, the audit record, the answer.\<close>

definition handler_persist :: "'s env \<Rightarrow> 's \<Rightarrow> user_info \<Rightarrow> request \<Rightarrow> ctx
    \<Rightarrow> (error + response) \<times> 's \<times> event list" where
  "handler_persist env st u req c =
     (let iid = params_id req;
          response = ctx_response c
      in case persist_call env st req c of
        (Inl dbError, st', tu) \<Rightarrow>
          (Inl dbError, st',
           tu @ [ConsoleError ''Database update error:'',
                 Audit (userId u) (username u) ''instance:redeploy_fail:db_update'' (ip req)
                   (JObj [(''instanceId'', JStr iid), (''error'', JStr (message dbError))])]
              @ rollback env (ctx_node c) response)
      | (Inr done, st', tu) \<Rightarrow>
          (case read_prop (data response) ''containerId'' of
             Inl e \<Rightarrow> (Inl e, st', tu)
           | Inr containerId \<Rightarrow>
               (Inr (Json 201 (JObj [(''success'', JBool True),
                       (''message'', JStr ''Container redeployed successfully''),
                       (''data'', JObj [(''containerId'', containerId),
                                        (''volumeId'', get (data response) ''volumeId''),
                                        (''instanceId'', JStr iid)])])),
                st',
                tu @ [Audit (userId u) (username u) ''instance:redeploy'' (ip req)
                        (JObj [(''instanceId'', JStr iid), (''newContainerId'', containerId)])])))"

text \<open>The handler: the answer, the store it leaves, and what it did, in order.\<close>

definition redeploy_handler :: "'s env \<Rightarrow> 's \<Rightarrow> user_info \<Rightarrow> request
    \<Rightarrow> response \<times> 's \<times> event list" where
  "redeploy_handler env st u req =
     (case handler_resolve env st u req of
        (Responded r, t) \<Rightarrow> (r, st, t)
      | (Threw e, t) \<Rightarrow> (catch_all e, st, t @ [ConsoleError ''Redeployment process error:''])
      | (Continue c, t) \<Rightarrow>
          (case handler_persist env st u req c of
             (Inl e, st', t') \<Rightarrow>
               (catch_all e, st', t @ t' @ [ConsoleError ''Redeployment process error:''])
           | (Inr r, st', t') \<Rightarrow> (r, st', t @ t')))"

text \<open>The route: the two middlewares, then the handler.\<close>

definition redeploy_route :: "'s env \<Rightarrow> 's \<Rightarrow> request \<Rightarrow> response \<times> 's \<times> event list" where
  "redeploy_route env st req =
     (case isAdmin req of
        Inl (r, t) \<Rightarrow> (r, st, t)
      | Inr u \<Rightarrow>
          (case validateRedeploymentParams req of
             Some r \<Rightarrow> (r, st, [])
           | None \<Rightarrow> redeploy_handler env st u req))"


section \<open>Notions used to state the properties\<close>

text \<open>The parameters the validator asks for, in the order it reads them.\<close>

definition required_params :: "string list" where
  "required_params = [''image'', ''memory'', ''cpu'', ''ports'', ''name'', ''user'', ''primary'']"

text \<open>A parameter is missing when the query has no value for it or an empty one.\<close>

definition missing :: "(string \<rightharpoonup> string) \<Rightarrow> string \<Rightarrow> bool" where
  "missing q n = (q n = None \<or> q n = Some [])"

text \<open>A non-empty string of digits, and a pair \<^verbatim>\<open>host:container\<close> of two of them.\<close>

definition digits :: "string \<Rightarrow> bool" where
  "digits s = (s \<noteq> [] \<and> (\<forall>c \<in> set s. is_digit c))"

definition good_pair :: "string \<Rightarrow> bool" where
  "good_pair p = (\<exists>h c. p = h @ CHR '':'' # c \<and> digits h \<and> digits c)"

text \<open>The three errors the loop over the port mappings can throw.\<close>

definition starts_with :: "string \<Rightarrow> string \<Rightarrow> bool" where
  "starts_with p m = (take (length p) m = p)"

definition port_error :: "error \<Rightarrow> bool" where
  "port_error e =
     (case e of
        Error m \<Rightarrow> starts_with ''Invalid port mapping: '' m
                 \<or> starts_with ''Invalid host port: '' m
                 \<or> starts_with ''Invalid container port: '' m
      | _ \<Rightarrow> False)"

text \<open>
  Values that are \<^verbatim>\<open>undefined\<close> or \<^verbatim>\<open>null\<close>; how many entries of a stored list have a
  given \<^verbatim>\<open>Id\<close>, and the entries that have another.
\<close>

definition nullish :: "jsval \<Rightarrow> bool" where
  "nullish v = (v = JUndefined \<or> v = JNull)"

definition count_Id :: "jsval \<Rightarrow> string \<Rightarrow> nat" where
  "count_Id v iid = (case v of JArr xs \<Rightarrow> length (filter (\<lambda>x. get x ''Id'' = JStr iid) xs) | _ \<Rightarrow> 0)"

definition other_entries :: "jsval \<Rightarrow> string \<Rightarrow> jsval list" where
  "other_entries v iid = (case v of JArr xs \<Rightarrow> filter (\<lambda>x. get x ''Id'' \<noteq> JStr iid) xs | _ \<Rightarrow> [])"

text \<open>
  What the read-back can find: a value that is absent or a list of entries, and such a
  value with no entry for a given \<^verbatim>\<open>Id\<close>.
\<close>

definition list_shaped :: "jsval \<Rightarrow> bool" where
  "list_shaped v = (case v of JUndefined \<Rightarrow> True | JNull \<Rightarrow> True
                    | JArr xs \<Rightarrow> list_all (\<lambda>x. \<not> nullish x) xs | _ \<Rightarrow> False)"

definition lacks_entry :: "jsval \<Rightarrow> string \<Rightarrow> bool" where
  "lacks_entry v iid = (case v of JArr xs \<Rightarrow> list_all (\<lambda>x. get x ''Id'' \<noteq> JStr iid) xs | _ \<Rightarrow> True)"

text \<open>
  The first part of the handler's update, with the handler's arguments.
\<close>

definition persist_lists :: "'s env \<Rightarrow> 's \<Rightarrow> request \<Rightarrow> ctx
    \<Rightarrow> (error + jsval \<times> jsval list \<times> jsval list) \<times> event list" where
  "persist_lists env st req c =
     update_lists env st (data (ctx_response c)) (qv (query req ''user''))
       (ctx_node c) (ctx_shortimage c) (qv (query req ''memory'')) (qv (query req ''cpu''))
       (qv (query req ''ports'')) (qv (query req ''primary'')) (qv (query req ''name''))
       (params_id req) (get (ctx_instance c) ''Env'') (get (ctx_instance c) ''imageData'')"

text \<open>
  The pairs of a ports string as (container port, host port), and what the two tables hold
  for a pair.
\<close>

definition pair_of :: "string \<Rightarrow> string \<times> string" where
  "pair_of portMapping =
     (case split CHR '':'' portMapping of h # c # rest \<Rightarrow> (c, h) | _ \<Rightarrow> ([], []))"

definition port_pairs :: "string \<Rightarrow> (string \<times> string) list" where
  "port_pairs s = map pair_of (split CHR '','' s)"

definition binding :: "string \<Rightarrow> jsval" where
  "binding h = JArr [JObj [(''HostPort'', JStr h)]]"

definition exposed_entry :: "string \<times> string \<Rightarrow> string \<times> jsval" where
  "exposed_entry p = (fst p @ ''/tcp'', JObj [])"

definition binding_entry :: "string \<times> string \<Rightarrow> string \<times> jsval" where
  "binding_entry p = (fst p @ ''/tcp'', binding (snd p))"

text \<open>
  Whether a part of the handler hands over to the next, and the writes among some events.
\<close>

definition continues :: "'a stage \<Rightarrow> bool" where
  "continues s = (case s of Continue c \<Rightarrow> True | _ \<Rightarrow> False)"

fun db_writes :: "event list \<Rightarrow> (string \<times> jsval) list" where
  "db_writes [] = []"
| "db_writes (DbSet k v # t) = (k, v) # db_writes t"
| "db_writes (e # t) = db_writes t"

text \<open>
  An image catalog with no entry for an image name: no list at all, or a list of entries
  none of which has that \<^verbatim>\<open>Image\<close>.
\<close>

definition catalog_lacks :: "jsval \<Rightarrow> string \<Rightarrow> bool" where
  "catalog_lacks cat img =
     (case cat of
        JArr xs \<Rightarrow> list_all (\<lambda>x. \<not> nullish x \<and> get x ''Image'' \<noteq> JStr img) xs
      | _ \<Rightarrow> \<not> truthy cat)"

definition is_TypeError :: "error \<Rightarrow> bool" where
  "is_TypeError e = (case e of TypeError m \<Rightarrow> True | _ \<Rightarrow> False)"

text \<open>
  A store that keeps what it is given: a key that has been written reads as the value
  written, every other key as before.
\<close>

definition store_keeps :: "'s env \<Rightarrow> bool" where
  "store_keeps env =
     (\<forall>s k v k'. kv_get env (kv_set env s k v) k' = (if k' = k then v else kv_get env s k'))"

subsection \<open>Example data\<close>

definition ex_user :: user_info where
  "ex_user = \<lparr>userId = ''a1'', username = ''root'', admin = True\<rparr>"

definition ex_request_incomplete :: request where
  "ex_request_incomplete =
     \<lparr>params_id = ''i1'',
      query = [''memory'' \<mapsto> ''512'', ''ports'' \<mapsto> ''80:8080'', ''name'' \<mapsto> ''web'',
               ''user'' \<mapsto> ''u1'', ''primary'' \<mapsto> ''80''],
      user = Some ex_user,
      ip = ''::1''\<rparr>"

text \<open>
  An instance \<^verbatim>\<open>i1\<close> of user \<^verbatim>\<open>u1\<close> on node \<^verbatim>\<open>n1\<close>, a store that holds it (twice in the
  user's list), a node agent that answers the check and the redeploy call and refuses the
  delete, and a request to redeploy the instance.
\<close>

definition ex_node :: jsval where
  "ex_node = JObj [(''id'', JStr ''n1''), (''address'', JStr ''10.0.0.5''), (''port'', JNum 3002),
                   (''apiKey'', JStr ''k'')]"

definition ex_instance :: jsval where
  "ex_instance = JObj [(''Id'', JStr ''i1''), (''Node'', ex_node), (''ContainerId'', JStr ''c1''),
                       (''Env'', JArr [])]"

definition ex_other :: jsval where
  "ex_other = JObj [(''Id'', JStr ''i2''), (''Node'', ex_node), (''ContainerId'', JStr ''c7'')]"

definition ex_image :: jsval where
  "ex_image = JObj [(''Image'', JStr ''nginx''), (''AltImages'', JArr [JStr ''nginx:alpine''])]"

definition ex_response :: jsval where
  "ex_response = JObj [(''containerId'', JStr ''c2''), (''volumeId'', JStr ''v1'')]"

definition ex_store :: "string \<Rightarrow> jsval" where
  "ex_store = (\<lambda>k. JUndefined)
     (''i1_instance'' := ex_instance,
      ''n1_node'' := ex_node,
      ''images'' := JArr [ex_image],
      ''u1_instances'' := JArr [ex_instance, ex_instance],
      ''instances'' := JArr [ex_other, ex_instance])"

definition ex_agent :: "http_config \<Rightarrow> error + http_response" where
  "ex_agent rq =
     (if http_method rq = ''get'' then Inr \<lparr>status = 200, data = JObj [(''Id'', JStr ''c1'')]\<rparr>
      else if http_method rq = ''post''
      then Inr \<lparr>status = 200, data = ex_response\<rparr>
      else Inl (AxiosError ''connect ECONNREFUSED'' None))"

definition ex_env :: "(string \<Rightarrow> jsval) env" where
  "ex_env = keyv ex_agent ''u-1'' ''2024-01-01T00:00:00.000Z''"

definition ex_request :: request where
  "ex_request =
     \<lparr>params_id = ''i1'',
      query = [''image'' \<mapsto> ''Nginx (nginx)'', ''memory'' \<mapsto> ''512'', ''cpu'' \<mapsto> ''1'',
               ''ports'' \<mapsto> ''80:8080'', ''name'' \<mapsto> ''web'', ''user'' \<mapsto> ''u1'',
               ''primary'' \<mapsto> ''80''],
      user = Some ex_user,
      ip = ''::1''\<rparr>"

definition ex_ctx :: ctx where
  "ex_ctx = \<lparr>ctx_instance = ex_instance, ctx_node = ex_node, ctx_shortimage = ''nginx'',
             ctx_response = \<lparr>status = 200, data = ex_response\<rparr>\<rparr>"

definition ex_new :: jsval where
  "ex_new = JObj
     [(''Name'', JStr ''web''), (''Id'', JStr ''i1''), (''Node'', ex_node), (''User'', JStr ''u1''),
      (''ContainerId'', JStr ''c2''), (''VolumeId'', JStr ''i1''), (''Memory'', JNum 512),
      (''Cpu'', JNum 1), (''Ports'', JStr ''80:8080''), (''Primary'', JStr ''80''),
      (''Env'', JArr []), (''Image'', JStr ''nginx''), (''AltImages'', JArr [JStr ''nginx:alpine'']),
      (''imageData'', JObj []), (''LastUpdated'', JStr ''2024-01-01T00:00:00.000Z'')]"

definition ex_redeploy_request :: http_config where
  "ex_redeploy_request =
     \<lparr>http_method = ''post'',
      url = ''http://10.0.0.5:3002/instances/redeploy/c1'',
      timeout = Some 30000,
      auth_username = ''Skyport'',
      auth_password = JStr ''k'',
      headers = [(''Content-Type'', ''application/json''), (''X-Request-ID'', ''u-1'')],
      payload = JObj
        [(''Name'', JStr ''web''), (''Id'', JStr ''i1''), (''Image'', JStr ''nginx''),
         (''Env'', JArr []), (''Scripts'', JArr []), (''Memory'', JNum 512), (''Cpu'', JNum 1),
         (''ExposedPorts'', JObj [(''8080/tcp'', JObj [])]),
         (''PortBindings'', JObj [(''8080/tcp'', JArr [JObj [(''HostPort'', JStr ''80'')]])]),
         (''AltImages'', JArr [JStr ''nginx:alpine'']),
         (''Labels'', JObj [(''com.skyport.instance'', JStr ''true''),
                            (''com.skyport.instance.id'', JStr ''i1''),
                            (''com.skyport.managed'', JStr ''true'')])]\<rparr>"

text \<open>
  A store that drops every write to \<^verbatim>\<open>instances\<close>, and stores that lack one thing each.
\<close>

definition ex_lossy_env :: "(string \<Rightarrow> jsval) env" where
  "ex_lossy_env =
     \<lparr>kv_get = (\<lambda>s k. s k),
      kv_set = (\<lambda>s k v. if k = ''instances'' then s else s(k := v)),
      axios = ex_agent, uuid = ''u-1'', now = ''2024-01-01T00:00:00.000Z''\<rparr>"

definition ex_store_stale :: "string \<Rightarrow> jsval" where
  "ex_store_stale = ex_store(''instances'' := JArr [ex_other])"

definition ex_store_no_image :: "string \<Rightarrow> jsval" where
  "ex_store_no_image = ex_store(''images'' := JUndefined)"

definition ex_store_new_user :: "string \<Rightarrow> jsval" where
  "ex_store_new_user = ex_store(''u1_instances'' := JUndefined)"

definition ex_store_first :: "string \<Rightarrow> jsval" where
  "ex_store_first = ex_store(''instances'' := JUndefined)"

definition ex_store_no_node_id :: "string \<Rightarrow> jsval" where
  "ex_store_no_node_id =
     ex_store(''i1_instance'' := JObj [(''Id'', JStr ''i1''),
                                       (''Node'', JObj [(''address'', JStr ''10.0.0.5'')])])"

definition ex_store_empty :: "string \<Rightarrow> jsval" where
  "ex_store_empty = (\<lambda>k. JUndefined)"

definition ex_store_no_node :: "string \<Rightarrow> jsval" where
  "ex_store_no_node =
     ex_store(''i1_instance'' := JObj [(''Id'', JStr ''i1''), (''ContainerId'', JStr ''c1'')])"

section \<open>Properties\<close>

subsection \<open>The validator\<close>

lemma not_truthy_qv: "(\<not> truthy (qv (q n))) = missing q n"
  by (cases "q n") (simp_all add: qv_def missing_def)

lemma filter_cons_if: "filter P (x # xs) = (if P x then [x] else []) @ filter P xs"
  by simp

lemma missingParams_filter: "missingParams q = filter (missing q) required_params"
  unfolding missingParams_def required_params_def not_truthy_qv
  by (simp only: filter_cons_if filter.simps(1) append_Nil2)

text \<open>
  C7. A request that lacks any of the seven parameters is rejected. With an instance
  identifier in the path, the rejection is the 400 answer whose list \<^verbatim>\<open>missing\<close> holds
  exactly the names of the parameters that are missing (absent, or present and empty),
  all of them, in the order image, memory, cpu, ports, name, user, primary. With an
  empty identifier the request is rejected before that, by the redirect.
\<close>

theorem validator_lists_missing:
  assumes "\<exists>n \<in> set required_params. missing (query req) n"
  shows "validateRedeploymentParams req =
     Some (if params_id req = [] then Redirect 400 ''/admin/instances?error=missing_instance_id''
           else Json 400 (JObj [(''error'', JStr ''Missing required parameters''),
                  (''missing'', JArr (map JStr (filter (missing (query req)) required_params)))]))"
proof -
  from assms have "filter (missing (query req)) required_params \<noteq> []"
    by (simp add: filter_empty_conv)
  then have "length (missingParams (query req)) > 0"
    by (simp add: missingParams_filter)
  then show ?thesis
    unfolding validateRedeploymentParams_def Let_def
    by (simp add: missingParams_filter)
qed

theorem validator_lists_missing_witness:
  "(\<exists>n \<in> set required_params. missing (query ex_request_incomplete) n) \<and>
   validateRedeploymentParams ex_request_incomplete =
     Some (Json 400 (JObj [(''error'', JStr ''Missing required parameters''),
                           (''missing'', JArr [JStr ''image'', JStr ''cpu''])]))"
  using validator_lists_missing [of ex_request_incomplete]
  by (simp add: ex_request_incomplete_def required_params_def missing_def)

subsection \<open>The pattern for the ports and the loop over them\<close>

inductive_cases m_noneE: "matches RNone w"
inductive_cases m_epsE: "matches REps w"
inductive_cases m_digitE: "matches RDigit w"
inductive_cases m_chrE: "matches (RChr c) w"
inductive_cases m_altE: "matches (RAlt r s) w"
inductive_cases m_seqE: "matches (RSeq r s) w"

lemma nullable_matches: "nullable r \<Longrightarrow> matches r []"
proof (induction r)
  case (RSeq r s)
  then have "matches r []" "matches s []" by simp_all
  then have "matches (RSeq r s) ([] @ [])" by (rule m_seq)
  then show ?case by simp
qed (auto intro: matches.intros)

lemma deriv_matches: "matches (deriv c r) w \<Longrightarrow> matches r (c # w)"
proof (induction r arbitrary: w)
  case RNone
  then show ?case by (auto elim: m_noneE)
next
  case REps
  then show ?case by (auto elim: m_noneE)
next
  case RDigit
  then show ?case by (auto split: if_splits elim: m_noneE m_epsE intro: m_digit)
next
  case (RChr d)
  then show ?case by (auto split: if_splits elim: m_noneE m_epsE intro: m_chr)
next
  case (RAlt r s)
  then show ?case by (auto elim!: m_altE intro: m_altl m_altr)
next
  case (RSeq r s)
  have left: "matches (RSeq r s) (c # w)" if "matches (RSeq (deriv c r) s) w"
  proof -
    from that obtain u v where w: "w = u @ v" and u: "matches (deriv c r) u" and v: "matches s v"
      by (auto elim: m_seqE)
    from u have "matches r (c # u)" by (rule RSeq.IH(1))
    then have "matches (RSeq r s) ((c # u) @ v)" using v by (rule m_seq)
    with w show ?thesis by simp
  qed
  have right: "matches (RSeq r s) (c # w)" if "nullable r" "matches (deriv c s) w"
  proof -
    from that(1) have "matches r []" by (rule nullable_matches)
    moreover from that(2) have "matches s (c # w)" by (rule RSeq.IH(2))
    ultimately have "matches (RSeq r s) ([] @ c # w)" by (rule m_seq)
    then show ?thesis by simp
  qed
  from RSeq.prems show ?case
    by (auto split: if_splits elim!: m_altE intro: left right)
next
  case (RStar r)
  from RStar.prems obtain u v where w: "w = u @ v" and u: "matches (deriv c r) u"
    and v: "matches (RStar r) v"
    by (auto elim: m_seqE)
  from u have "matches r (c # u)" by (rule RStar.IH)
  then have "matches (RStar r) ((c # u) @ v)" using v by (rule m_star)
  with w show ?case by simp
qed

lemma rx_test_matches: "rx_test r s \<Longrightarrow> matches r s"
  unfolding rx_test_def
proof (induction s arbitrary: r)
  case Nil
  then show ?case by (simp add: nullable_matches)
next
  case (Cons c s)
  then have "matches (deriv c r) s" by simp
  then show ?case by (rule deriv_matches)
qed

lemma matches_nullable: "matches r s \<Longrightarrow> s = [] \<Longrightarrow> nullable r"
  by (induction rule: matches.induct) auto

lemma matches_deriv: "matches r s \<Longrightarrow> s = c # w \<Longrightarrow> matches (deriv c r) w"
proof (induction arbitrary: c w rule: matches.induct)
  case (m_digit d)
  then show ?case by (auto intro: m_eps)
next
  case (m_chr d)
  then show ?case by (auto intro: m_eps)
next
  case (m_altl r s' r')
  then show ?case by (auto intro: matches.m_altl)
next
  case (m_altr s' s r)
  then show ?case by (auto intro: matches.m_altr)
next
  case (m_seq r u s v)
  show ?case
  proof (cases u)
    case Nil
    with m_seq.prems have v: "v = c # w" by simp
    have n: "nullable r" using m_seq.hyps(1) Nil by (auto dest: matches_nullable)
    have "matches (deriv c s) w" using m_seq.IH(2) [OF v] .
    then show ?thesis using n by (auto intro: matches.m_altr)
  next
    case (Cons a u')
    with m_seq.prems have a: "a = c" and w: "w = u' @ v" by simp_all
    have "matches (deriv c r) u'" using m_seq.IH(1) Cons a by simp
    then have "matches (RSeq (deriv c r) s) (u' @ v)" using m_seq.hyps(2) by (rule matches.m_seq)
    then show ?thesis using w by (auto intro: matches.m_altl)
  qed
next
  case (m_star r u v)
  show ?case
  proof (cases u)
    case Nil
    with m_star.prems have v: "v = c # w" by simp
    show ?thesis using m_star.IH(2) [OF v] .
  next
    case (Cons a u')
    with m_star.prems have a: "a = c" and w: "w = u' @ v" by simp_all
    have "matches (deriv c r) u'" using m_star.IH(1) Cons a by simp
    then have "matches (RSeq (deriv c r) (RStar r)) (u' @ v)"
      using m_star.hyps(2) by (rule matches.m_seq)
    then show ?thesis using w by simp
  qed
qed simp_all

lemma matches_rx_test: "matches r s \<Longrightarrow> rx_test r s"
  unfolding rx_test_def
proof (induction s arbitrary: r)
  case Nil
  then show ?case by (simp add: matches_nullable)
next
  case (Cons c s)
  then have "matches (deriv c r) s" by (simp add: matches_deriv)
  with Cons.IH show ?case by simp
qed

lemma rx_test_iff: "rx_test r s \<longleftrightarrow> matches r s"
  using rx_test_matches matches_rx_test by blast

lemma star_digit: "matches r w \<Longrightarrow> r = RStar RDigit \<Longrightarrow> \<forall>c \<in> set w. is_digit c"
  by (induction rule: matches.induct) (auto elim: m_digitE)

lemma plus_digit:
  assumes "matches (RPlus RDigit) w"
  shows "digits w"
proof -
  from assms obtain u v where w: "w = u @ v" and u: "matches RDigit u"
    and v: "matches (RStar RDigit) v"
    unfolding RPlus_def by (auto elim: m_seqE)
  from u obtain c where "u = [c]" "is_digit c" by (auto elim: m_digitE)
  moreover from v have "\<forall>c \<in> set v. is_digit c" by (rule star_digit[OF _ refl])
  ultimately show ?thesis using w by (simp add: digits_def)
qed

lemma pair_good:
  assumes "matches portPair p"
  shows "good_pair p"
proof -
  from assms obtain h t where p: "p = h @ t" and h: "matches (RPlus RDigit) h"
    and t: "matches (RSeq (RChr CHR '':'') (RPlus RDigit)) t"
    unfolding portPair_def by (auto elim: m_seqE)
  from t obtain c where "t = CHR '':'' # c" "matches (RPlus RDigit) c"
    by (auto elim!: m_seqE m_chrE)
  with p h show ?thesis
    unfolding good_pair_def using plus_digit by blast
qed

lemma tail_good: "matches r t \<Longrightarrow> r = RStar (RSeq (RChr CHR '','') portPair) \<Longrightarrow>
    \<exists>ps. t = concat (map ((#) CHR '','') ps) \<and> (\<forall>p \<in> set ps. good_pair p)"
proof (induction rule: matches.induct)
  case (m_star0 r)
  have "[] = concat (map ((#) CHR '','') []) \<and> (\<forall>p \<in> set ([]::string list). good_pair p)" by simp
  then show ?case by blast
next
  case (m_star r u v)
  then obtain ps where ps: "v = concat (map ((#) CHR '','') ps)" "\<forall>p \<in> set ps. good_pair p"
    by auto
  from m_star have "matches (RSeq (RChr CHR '','') portPair) u" by simp
  then obtain p where u: "u = CHR '','' # p" and p: "good_pair p"
    by (auto elim!: m_seqE m_chrE dest: pair_good)
  have "u @ v = concat (map ((#) CHR '','') (p # ps)) \<and> (\<forall>q \<in> set (p # ps). good_pair q)"
    using ps u p by simp
  then show ?case by blast
qed simp_all

lemma portRegex_shape:
  assumes "rx_test portRegex s"
  shows "\<exists>p ps. s = p @ concat (map ((#) CHR '','') ps) \<and> good_pair p \<and> (\<forall>q \<in> set ps. good_pair q)"
proof -
  from assms have "matches portRegex s" by (rule rx_test_matches)
  then obtain p t where "s = p @ t" "matches portPair p"
    "matches (RStar (RSeq (RChr CHR '','') portPair)) t"
    unfolding portRegex_def by (auto elim: m_seqE)
  then show ?thesis using tail_good[OF _ refl] pair_good by blast
qed


lemma split_notin: "c \<notin> set p \<Longrightarrow> split c p = [p]"
  by (induction p) auto

lemma split_append: "c \<notin> set p \<Longrightarrow> split c (p @ c # rest) = p # split c rest"
  by (induction p) auto

lemma digit_chars:
  assumes "is_digit c"
  shows "c \<noteq> CHR '',''" "c \<noteq> CHR '':''" "c \<noteq> CHR ''-''" "c \<noteq> CHR ''+''"
    "c \<noteq> CHR ''x''" "c \<noteq> CHR ''X''" "\<not> is_ws c"
  using assms by (auto simp: is_digit_def is_ws_def code_def)

lemma digits_no_sep: "digits h \<Longrightarrow> CHR '','' \<notin> set h \<and> CHR '':'' \<notin> set h"
  unfolding digits_def using digit_chars(1,2) by blast

lemma good_pair_no_comma: "good_pair p \<Longrightarrow> CHR '','' \<notin> set p"
  unfolding good_pair_def using digits_no_sep by auto

lemma split_commas:
  "CHR '','' \<notin> set p \<Longrightarrow> \<forall>q \<in> set ps. CHR '','' \<notin> set q \<Longrightarrow>
   split CHR '','' (p @ concat (map ((#) CHR '','') ps)) = p # ps"
proof (induction ps arbitrary: p)
  case Nil
  then show ?case by (simp add: split_notin)
next
  case (Cons q qs)
  then have "split CHR '','' (q @ concat (map ((#) CHR '','') qs)) = q # qs" by simp
  with Cons.prems(1) show ?case by (simp add: split_append)
qed

lemma parseInt_digits:
  assumes "digits h"
  shows "\<exists>n. parseInt h = Some n"
proof -
  from assms obtain a r where h: "h = a # r" and a: "is_digit a" and r: "\<forall>c \<in> set r. is_digit c"
    by (cases h) (auto simp: digits_def)
  have ws: "dropWhile is_ws h = h" using h a digit_chars(7) by simp
  have sg: "strip_sign h = (False, h)"
    using h a digit_chars(3,4) by (simp add: strip_sign_def)
  have rd: "strip_radix h = (False, h)"
  proof (cases r)
    case Nil
    then show ?thesis using h by (simp add: strip_radix_def)
  next
    case (Cons b r')
    with r have "is_digit b" by simp
    then have "b \<noteq> CHR ''x''" "b \<noteq> CHR ''X''" using digit_chars(5,6) by blast+
    then show ?thesis using h Cons by (simp add: strip_radix_def)
  qed
  have tk: "takeWhile is_digit h = h" using h a r by (simp add: takeWhile_eq_all_conv)
  have ne: "h \<noteq> []" using h by simp
  show ?thesis
    by (simp add: parseInt_def ws sg rd tk ne)
qed

lemma check_good:
  assumes "good_pair p"
  shows "\<exists>h c. portMapping_check p = Inr (h, c) \<and> p = h @ CHR '':'' # c \<and> digits h \<and> digits c"
proof -
  from assms obtain h c where p: "p = h @ CHR '':'' # c" and h: "digits h" and c: "digits c"
    unfolding good_pair_def by blast
  have "split CHR '':'' p = [h, c]"
    using p h c digits_no_sep by (simp add: split_append split_notin)
  moreover have "h \<noteq> []" "c \<noteq> []" using h c by (simp_all add: digits_def)
  moreover obtain n m where "parseInt h = Some n" "parseInt c = Some m"
    using parseInt_digits h c by blast
  ultimately have "portMapping_check p = Inr (h, c)"
    by (simp add: portMapping_check_def isNaN_def)
  with p h c show ?thesis by blast
qed

lemma forEach_good:
  "\<forall>p \<in> set ps. good_pair p \<Longrightarrow> \<exists>tables. forEach_ports ps acc = Inr tables"
proof (induction ps arbitrary: acc)
  case Nil
  then show ?case by simp
next
  case (Cons p ps)
  from Cons.prems have "good_pair p" by simp
  then obtain h c where chk: "portMapping_check p = Inr (h, c)" using check_good by blast
  obtain ex pb where acc: "acc = (ex, pb)" by (cases acc)
  from Cons.prems have "\<forall>q \<in> set ps. good_pair q" by simp
  then have "\<exists>tables. forEach_ports ps
      (AList.update (c @ ''/tcp'') (JObj []) ex,
       AList.update (c @ ''/tcp'') (JArr [JObj [(''HostPort'', JStr h)]]) pb) = Inr tables"
    by (rule Cons.IH)
  then show ?case using chk acc by simp
qed


lemma read_prop_error: "read_prop v k = Inl e \<Longrightarrow> \<not> port_error e"
  by (cases v) (auto simp: port_error_def)

lemma find_loop_error: "find_loop xs img = Inl e \<Longrightarrow> \<not> port_error e"
  by (induction xs) (auto split: sum.splits if_splits dest: read_prop_error)

lemma find_Image_error: "find_Image raw img = Inl e \<Longrightarrow> \<not> port_error e"
  by (cases raw) (auto simp: find_Image_def port_error_def dest: find_loop_error)

lemma image_error_no_port_error: "\<not> port_error (Error (CHR ''I'' # CHR ''m'' # m))"
  by (simp add: port_error_def starts_with_def)

lemma regex_process_ports:
  assumes "rx_test portRegex s"
  shows "\<exists>tables. process_ports (JStr s) = Inr tables"
proof -
  from assms obtain p ps where s: "s = p @ concat (map ((#) CHR '','') ps)"
    and good: "good_pair p" "\<forall>q \<in> set ps. good_pair q"
    using portRegex_shape by blast
  have "split CHR '','' s = p # ps"
    unfolding s using good good_pair_no_comma by (intro split_commas) auto
  moreover have "\<forall>q \<in> set (p # ps). good_pair q" using good by simp
  ultimately have "\<exists>tables. forEach_ports (split CHR '','' s) ([], []) = Inr tables"
    using forEach_good by metis
  then show ?thesis by (auto simp: process_ports_def)
qed

text \<open>
  C10. For a ports string that the validator's pattern accepts, the loop over the port
  mappings runs to its end, and whatever \<^verbatim>\<open>prepareRequestData\<close> may still throw is
  none of the three port-mapping errors.
\<close>

theorem regex_excludes_port_errors:
  assumes "rx_test portRegex s"
  shows "(\<exists>tables. process_ports (JStr s) = Inr tables) \<and>
         (\<forall>e. fst (prepareRequestData env st img memory cpu (JStr s) name node iid containerId Env)
                 = Inl e \<longrightarrow> \<not> port_error e)"
proof -
  from assms obtain tables where t: "process_ports (JStr s) = Inr tables"
    using regex_process_ports by blast
  have "\<not> port_error e"
    if "prepare_body env st img memory cpu (JStr s) name node iid containerId Env = Inl e" for e
    using that t
    by (auto simp: prepare_body_def Let_def split: sum.splits if_splits prod.splits
             dest: find_Image_error read_prop_error simp: image_error_no_port_error)
  then have "\<forall>e. fst (prepareRequestData env st img memory cpu (JStr s) name node iid containerId Env)
                 = Inl e \<longrightarrow> \<not> port_error e"
    by (auto simp: prepareRequestData_def split: sum.splits)
  with t show ?thesis by blast
qed

lemma ex_ports_accepted: "rx_test portRegex ''80:8080,443:8443''"
  by (simp add: rx_test_def portRegex_def portPair_def RPlus_def is_digit_def code_def)

theorem regex_excludes_port_errors_witness:
  "rx_test portRegex ''80:8080,443:8443'' \<and>
   process_ports (JStr ''80:8080,443:8443'') =
     Inr ([(''8080/tcp'', JObj []), (''8443/tcp'', JObj [])],
          [(''8080/tcp'', JArr [JObj [(''HostPort'', JStr ''80'')]]),
           (''8443/tcp'', JArr [JObj [(''HostPort'', JStr ''443'')]])])"
proof -
  have "\<exists>tables. process_ports (JStr ''80:8080,443:8443'') = Inr tables"
    by (rule conjunct1 [OF regex_excludes_port_errors [OF ex_ports_accepted]])
  moreover have "process_ports (JStr ''80:8080,443:8443'') =
     Inr ([(''8080/tcp'', JObj []), (''8443/tcp'', JObj [])],
          [(''8080/tcp'', JArr [JObj [(''HostPort'', JStr ''80'')]]),
           (''8443/tcp'', JArr [JObj [(''HostPort'', JStr ''443'')]])])"
    by (simp add: process_ports_def portMapping_check_def isNaN_def parseInt_def strip_sign_def
          strip_radix_def is_ws_def is_digit_def code_def)
  ultimately show ?thesis using ex_ports_accepted by simp
qed

subsection \<open>Values, the store and the example data\<close>

lemmas js_defs = js_or_def get_def qv_def Promise_all_def db_get_def db_set_def isArray_def num_def
  isNaN_def

lemmas parse_defs = parseInt_def strip_sign_def strip_radix_def is_ws_def is_digit_def code_def
  digit_val_def

lemma keyv_simps [simp]:
  "kv_get (keyv ax u n) s k = s k"
  "kv_set (keyv ax u n) s k v = s(k := v)"
  "axios (keyv ax u n) = ax"
  "uuid (keyv ax u n) = u"
  "now (keyv ax u n) = n"
  by (simp_all add: keyv_def)

lemma read_prop_get: "\<not> nullish v \<Longrightarrow> read_prop v k = Inr (get v k)"
  by (cases v) (simp_all add: nullish_def get_def)

lemma read_prop_Inr: "read_prop v k = Inr x \<Longrightarrow> get v k = x"
  by (simp add: get_def)

lemma read_prop_nullish: "nullish v \<Longrightarrow> \<exists>m. read_prop v k = Inl (TypeError m)"
  by (auto simp: nullish_def)

lemma db_writes_append: "db_writes (a @ b) = db_writes a @ db_writes b"
  by (induction a rule: db_writes.induct) simp_all

lemma key_user_global: "x @ ''_instances'' \<noteq> ''instances''"
proof
  assume "x @ ''_instances'' = ''instances''"
  then have "length (x @ ''_instances'') = length ''instances''" by (rule arg_cong)
  then show False by simp
qed

lemma key_user_images: "x @ ''_instances'' \<noteq> ''images''"
proof
  assume "x @ ''_instances'' = ''images''"
  then have "length (x @ ''_instances'') = length ''images''" by (rule arg_cong)
  then show False by simp
qed

lemma key_inst_images: "i @ ''_instance'' \<noteq> ''images''"
proof
  assume "i @ ''_instance'' = ''images''"
  then have "length (i @ ''_instance'') = length ''images''" by (rule arg_cong)
  then show False by simp
qed

lemma key_inst_global: "i @ ''_instance'' \<noteq> ''instances''"
proof
  assume "i @ ''_instance'' = ''instances''"
  then have "last (i @ ''_instance'') = last ''instances''" by (rule arg_cong)
  then show False by simp
qed

lemma key_inst_user: "i @ ''_instance'' \<noteq> x @ ''_instances''"
proof
  assume "i @ ''_instance'' = x @ ''_instances''"
  then have "last (i @ ''_instance'') = last (x @ ''_instances'')" by (rule arg_cong)
  then show False by simp
qed

lemmas key_distinct = key_user_global key_user_images key_inst_images key_inst_global key_inst_user
  key_user_global [symmetric] key_user_images [symmetric] key_inst_images [symmetric]
  key_inst_global [symmetric] key_inst_user [symmetric]

lemma ex_store_simps:
  "ex_store ''i1_instance'' = ex_instance"
  "ex_store ''n1_node'' = ex_node"
  "ex_store ''images'' = JArr [ex_image]"
  "ex_store ''u1_instances'' = JArr [ex_instance, ex_instance]"
  "ex_store ''instances'' = JArr [ex_other, ex_instance]"
  by (simp_all add: ex_store_def)

lemma ex_env_simps:
  "kv_get ex_env s k = s k"
  "kv_set ex_env s k v = s(k := v)"
  "axios ex_env = ex_agent"
  "uuid ex_env = ''u-1''"
  "now ex_env = ''2024-01-01T00:00:00.000Z''"
  by (simp_all add: ex_env_def)

lemma ex_request_simps:
  "params_id ex_request = ''i1''"
  "query ex_request ''image'' = Some ''Nginx (nginx)''"
  "query ex_request ''memory'' = Some ''512''"
  "query ex_request ''cpu'' = Some ''1''"
  "query ex_request ''ports'' = Some ''80:8080''"
  "query ex_request ''name'' = Some ''web''"
  "query ex_request ''user'' = Some ''u1''"
  "query ex_request ''primary'' = Some ''80''"
  "user ex_request = Some ex_user"
  "ip ex_request = ''::1''"
  by (simp_all add: ex_request_def)

lemma ex_values:
  "get ex_instance ''Node'' = ex_node"
  "get ex_instance ''ContainerId'' = JStr ''c1''"
  "get ex_instance ''Env'' = JArr []"
  "get ex_instance ''imageData'' = JUndefined"
  "get ex_instance ''Id'' = JStr ''i1''"
  "get ex_other ''Id'' = JStr ''i2''"
  "truthy ex_instance" "\<not> nullish ex_instance" "\<not> nullish ex_other"
  "read_prop ex_node ''id'' = Inr (JStr ''n1'')"
  "truthy ex_node"
  "get ex_response ''containerId'' = JStr ''c2''"
  "get ex_response ''volumeId'' = JStr ''v1''"
  "\<not> nullish ex_response"
  "find_Image (js_or (JArr [ex_image]) (JArr [])) ''nginx'' = Inr ex_image"
  by (simp_all add: ex_instance_def ex_other_def ex_node_def ex_response_def ex_image_def
        get_def nullish_def find_Image_def js_or_def)

lemma ex_ctx_simps:
  "ctx_instance ex_ctx = ex_instance" "ctx_node ex_ctx = ex_node"
  "ctx_shortimage ex_ctx = ''nginx''" "data (ctx_response ex_ctx) = ex_response"
  by (simp_all add: ex_ctx_def)

lemma ex_lossy_simps:
  "kv_get ex_lossy_env s k = s k"
  "kv_set ex_lossy_env s k v = (if k = ''instances'' then s else s(k := v))"
  "axios ex_lossy_env = ex_agent"
  "now ex_lossy_env = ''2024-01-01T00:00:00.000Z''"
  by (simp_all add: ex_lossy_env_def)

lemma ex_stale_simps:
  "ex_store_stale ''i1_instance'' = ex_instance"
  "ex_store_stale ''n1_node'' = ex_node"
  "ex_store_stale ''images'' = JArr [ex_image]"
  "ex_store_stale ''u1_instances'' = JArr [ex_instance, ex_instance]"
  "ex_store_stale ''instances'' = JArr [ex_other]"
  by (simp_all add: ex_store_stale_def ex_store_simps)

lemma show_3002: "show_int 3002 = ''3002''"
  by (simp add: show_int_def)

subsection \<open>The tables of the port mappings\<close>

lemma check_pair: "portMapping_check pm = Inr (h, c) \<Longrightarrow> pair_of pm = (c, h)"
  by (auto simp: portMapping_check_def pair_of_def split: list.splits if_splits)

lemma snoc_table: "m ++ map_of (rev (e # es)) = m(fst e \<mapsto> snd e) ++ map_of (rev es)"
  by (cases e) simp

lemma forEach_tables:
  "forEach_ports pms (ex, pb) = Inr (ex', pb') \<Longrightarrow>
   map_of ex' = map_of ex ++ map_of (rev (map exposed_entry (map pair_of pms))) \<and>
   map_of pb' = map_of pb ++ map_of (rev (map binding_entry (map pair_of pms))) \<and>
   (\<forall>pm \<in> set pms. portMapping_check pm = Inr (snd (pair_of pm), fst (pair_of pm)))"
proof (induction pms arbitrary: ex pb)
  case Nil
  then show ?case by simp
next
  case (Cons pm pms)
  from Cons.prems obtain h c where chk: "portMapping_check pm = Inr (h, c)"
    by (auto split: sum.splits)
  then have po: "pair_of pm = (c, h)" by (rule check_pair)
  let ?k = "c @ ''/tcp''"
  from Cons.prems chk have "forEach_ports pms
      (AList.update ?k (JObj []) ex,
       AList.update ?k (JArr [JObj [(''HostPort'', JStr h)]]) pb) = Inr (ex', pb')"
    by simp
  from Cons.IH [OF this] have
    ih1: "map_of ex' = map_of (AList.update ?k (JObj []) ex)
            ++ map_of (rev (map exposed_entry (map pair_of pms)))"
    and ih2: "map_of pb' = map_of (AList.update ?k (JArr [JObj [(''HostPort'', JStr h)]]) pb)
            ++ map_of (rev (map binding_entry (map pair_of pms)))"
    and ih3: "\<forall>pm \<in> set pms. portMapping_check pm = Inr (snd (pair_of pm), fst (pair_of pm))"
    by blast+
  have e: "exposed_entry (pair_of pm) = (?k, JObj [])"
    by (simp add: po exposed_entry_def)
  have b: "binding_entry (pair_of pm) = (?k, JArr [JObj [(''HostPort'', JStr h)]])"
    by (simp add: po binding_entry_def binding_def)
  have g1: "map_of ex' = map_of ex ++ map_of (rev (map exposed_entry (map pair_of (pm # pms))))"
    unfolding ih1 update_conv' list.map snoc_table e by simp
  have g2: "map_of pb' = map_of pb ++ map_of (rev (map binding_entry (map pair_of (pm # pms))))"
    unfolding ih2 update_conv' list.map snoc_table b by simp
  have g3: "\<forall>q \<in> set (pm # pms). portMapping_check q = Inr (snd (pair_of q), fst (pair_of q))"
    using ih3 chk po by simp
  from g1 g2 g3 show ?case by blast
qed

lemma map_of_tcp:
  "map_of (map (\<lambda>p. (fst p @ ''/tcp'', g (snd p))) xs) (c @ ''/tcp'') = map_option g (map_of xs c)"
  by (induction xs) auto

lemma tables_at:
  assumes "forEach_ports (split CHR '','' s) ([], []) = Inr (ex, pb)"
  shows "map_of ex (c @ ''/tcp'') = map_option (\<lambda>h. JObj []) (map_of (rev (port_pairs s)) c)"
    and "map_of pb (c @ ''/tcp'') = map_option binding (map_of (rev (port_pairs s)) c)"
proof -
  from forEach_tables [OF assms] have
    e: "map_of ex = map_of (rev (map exposed_entry (port_pairs s)))" and
    b: "map_of pb = map_of (rev (map binding_entry (port_pairs s)))"
    by (simp_all add: port_pairs_def)
  show "map_of ex (c @ ''/tcp'') = map_option (\<lambda>h. JObj []) (map_of (rev (port_pairs s)) c)"
    unfolding e rev_map exposed_entry_def by (rule map_of_tcp)
  show "map_of pb (c @ ''/tcp'') = map_option binding (map_of (rev (port_pairs s)) c)"
    unfolding b rev_map binding_entry_def by (rule map_of_tcp)
qed

lemma map_of_rev_member: "(c, h) \<in> set xs \<Longrightarrow> \<exists>h'. map_of (rev xs) c = Some h'"
  by (rule weak_map_of_SomeI [of c h "rev xs"]) simp

lemma map_of_rev_distinct:
  "distinct (map fst xs) \<Longrightarrow> (c, h) \<in> set xs \<Longrightarrow> map_of (rev xs) c = Some h"
  by (rule map_of_is_SomeI) (simp_all add: rev_map [symmetric])

lemma prepare_tables:
  assumes "fst (prepareRequestData env st img memory cpu ports name node iid cid Env) = Inr rq"
  shows "\<exists>ex pb. process_ports ports = Inr (ex, pb) \<and>
      get (payload rq) ''ExposedPorts'' = JObj ex \<and> get (payload rq) ''PortBindings'' = JObj pb"
proof -
  let ?raw = "js_or (await (db_get env st ''images'')) (JArr [])"
  from assms have body: "prepare_body env st img memory cpu ports name node iid cid Env = Inr rq"
    by (simp add: prepareRequestData_def split: sum.splits)
  show ?thesis
  proof (cases "find_Image ?raw img")
    case (Inl e)
    with body show ?thesis by (simp add: prepare_body_def)
  next
    case found: (Inr imageData)
    show ?thesis
    proof (cases "truthy imageData")
      case False
      with body found show ?thesis by (simp add: prepare_body_def)
    next
      case True
      show ?thesis
      proof (cases "read_prop node ''address''")
        case (Inl e)
        with body found True show ?thesis by (simp add: prepare_body_def)
      next
        case addr: (Inr address)
        show ?thesis
        proof (cases "process_ports ports")
          case (Inl e)
          with body found True addr show ?thesis by (simp add: prepare_body_def)
        next
          case (Inr tables)
          obtain ex pb where t: "tables = (ex, pb)" by (cases tables)
          from body found True addr Inr t have "get (payload rq) ''ExposedPorts'' = JObj ex"
            "get (payload rq) ''PortBindings'' = JObj pb"
            by (auto simp: prepare_body_def get_def)
          with Inr t show ?thesis by simp
        qed
      qed
    qed
  qed
qed

lemma ex_prepare_80:
  "prepareRequestData ex_env ex_store ''nginx'' (JStr ''512'') (JStr ''1'') (JStr ''80:8080'')
      (JStr ''web'') ex_node ''i1'' (JStr ''c1'') (JArr []) = (Inr ex_redeploy_request, [DbGet ''images''])"
  by (simp add: prepareRequestData_def prepare_body_def ex_node_def ex_image_def ex_env_simps
        ex_store_simps find_Image_def js_defs process_ports_def portMapping_check_def parse_defs
        ex_redeploy_request_def show_3002)

text \<open>
  C6. As the specification has it, every pair's port-bindings entry holds the pair's own host port;
  the code keeps one entry per container port, so a later pair with the same container
  port replaces the entry of an earlier one. What holds: when \<^verbatim>\<open>prepareRequestData\<close> returns
  a request for a non-empty ports string, every pair of the string is valid, and for every
  pair the exposed ports have the key \<^verbatim>\<open>{containerPort}/tcp\<close> with an empty object and the
  port bindings map that key to the one-element list \<^verbatim>\<open>[{HostPort: h}]\<close>, where \<^verbatim>\<open>h\<close> is the
  host port, as the string it was given, of the last pair with that container port; it is
  the pair's own host port when no container port occurs twice. For \<^verbatim>\<open>80:8080\<close> the two
  tables are exactly \<^verbatim>\<open>{"8080/tcp": {}}\<close> and \<^verbatim>\<open>{"8080/tcp": [{HostPort: "80"}]}\<close>.
\<close>

theorem port_translation:
  assumes ok: "fst (prepareRequestData env st img memory cpu (JStr s) name node iid cid Env) = Inr rq"
    and ne: "s \<noteq> []"
  shows "\<exists>ex pb.
     get (payload rq) ''ExposedPorts'' = JObj ex \<and>
     get (payload rq) ''PortBindings'' = JObj pb \<and>
     (\<forall>p \<in> set (split CHR '','' s).
        portMapping_check p = Inr (snd (pair_of p), fst (pair_of p))) \<and>
     (\<forall>(c, h) \<in> set (port_pairs s).
        map_of ex (c @ ''/tcp'') = Some (JObj []) \<and>
        (\<exists>h'. map_of (rev (port_pairs s)) c = Some h' \<and>
              map_of pb (c @ ''/tcp'') = Some (binding h'))) \<and>
     (distinct (map fst (port_pairs s)) \<longrightarrow>
        (\<forall>(c, h) \<in> set (port_pairs s). map_of pb (c @ ''/tcp'') = Some (binding h))) \<and>
     (s = ''80:8080'' \<longrightarrow>
        ex = [(''8080/tcp'', JObj [])] \<and> pb = [(''8080/tcp'', binding ''80'')])"
proof -
  from ok have "\<exists>ex pb. forEach_ports (split CHR '','' s) ([], []) = Inr (ex, pb) \<and>
      get (payload rq) ''ExposedPorts'' = JObj ex \<and> get (payload rq) ''PortBindings'' = JObj pb"
    using prepare_tables [of env st img memory cpu "JStr s" name node iid cid Env rq] ne
    by (simp add: process_ports_def)
  then obtain ex pb where run: "forEach_ports (split CHR '','' s) ([], []) = Inr (ex, pb)"
    and ex: "get (payload rq) ''ExposedPorts'' = JObj ex"
    and pb: "get (payload rq) ''PortBindings'' = JObj pb"
    by blast
  have valid: "\<forall>p \<in> set (split CHR '','' s).
      portMapping_check p = Inr (snd (pair_of p), fst (pair_of p))"
    using forEach_tables [OF run] by blast
  have each: "map_of ex (c @ ''/tcp'') = Some (JObj []) \<and>
        (\<exists>h'. map_of (rev (port_pairs s)) c = Some h' \<and>
              map_of pb (c @ ''/tcp'') = Some (binding h'))"
    if mem: "(c, h) \<in> set (port_pairs s)" for c h
  proof -
    obtain h' where "map_of (rev (port_pairs s)) c = Some h'"
      using map_of_rev_member [OF mem] by blast
    then show ?thesis by (simp add: tables_at [OF run])
  qed
  have dist: "map_of pb (c @ ''/tcp'') = Some (binding h)"
    if "distinct (map fst (port_pairs s))" "(c, h) \<in> set (port_pairs s)" for c h
    using that by (simp add: tables_at [OF run] map_of_rev_distinct)
  have one: "ex = [(''8080/tcp'', JObj [])] \<and> pb = [(''8080/tcp'', binding ''80'')]"
    if "s = ''80:8080''"
    using run unfolding that
    by (simp add: portMapping_check_def isNaN_def binding_def parse_defs)
  show ?thesis
    using ex pb valid each dist one by (intro exI [of _ ex] exI [of _ pb]) auto
qed

theorem port_translation_witness:
  "fst (prepareRequestData ex_env ex_store ''nginx'' (JStr ''512'') (JStr ''1'') (JStr ''80:8080'')
      (JStr ''web'') ex_node ''i1'' (JStr ''c1'') (JArr [])) = Inr ex_redeploy_request \<and>
   ''80:8080'' \<noteq> [] \<and>
   port_pairs ''80:8080'' = [(''8080'', ''80'')] \<and>
   get (payload ex_redeploy_request) ''ExposedPorts'' = JObj [(''8080/tcp'', JObj [])] \<and>
   get (payload ex_redeploy_request) ''PortBindings''
     = JObj [(''8080/tcp'', JArr [JObj [(''HostPort'', JStr ''80'')]])]"
proof -
  have h: "fst (prepareRequestData ex_env ex_store ''nginx'' (JStr ''512'') (JStr ''1'')
      (JStr ''80:8080'') (JStr ''web'') ex_node ''i1'' (JStr ''c1'') (JArr [])) = Inr ex_redeploy_request"
    by (simp add: ex_prepare_80)
  have ne: "''80:8080'' \<noteq> []" by simp
  have pp: "port_pairs ''80:8080'' = [(''8080'', ''80'')]"
    by (simp add: port_pairs_def pair_of_def)
  from port_translation [OF h ne] obtain ex pb where
    "get (payload ex_redeploy_request) ''ExposedPorts'' = JObj ex"
    "get (payload ex_redeploy_request) ''PortBindings'' = JObj pb"
    "ex = [(''8080/tcp'', JObj [])] \<and> pb = [(''8080/tcp'', binding ''80'')]"
    by blast
  then show ?thesis using h pp by (simp add: binding_def)
qed

text \<open>
  For \<^verbatim>\<open>80:8080,81:8080\<close> both pairs are valid, and the request binds \<^verbatim>\<open>8080/tcp\<close> to host
  port 81 only: the pair \<^verbatim>\<open>80:8080\<close> has no binding of its own.
\<close>

theorem port_translation_counterexample:
  "split CHR '','' ''80:8080,81:8080'' = [''80:8080'', ''81:8080''] \<and>
   portMapping_check ''80:8080'' = Inr (''80'', ''8080'') \<and>
   (case fst (prepareRequestData ex_env ex_store ''nginx'' (JStr ''512'') (JStr ''1'')
               (JStr ''80:8080,81:8080'') (JStr ''web'') ex_node ''i1'' (JStr ''c1'') (JArr [])) of
      Inl e \<Rightarrow> False
    | Inr rq \<Rightarrow> get (payload rq) ''PortBindings''
                 = JObj [(''8080/tcp'', JArr [JObj [(''HostPort'', JStr ''81'')]])])"
  by (simp add: prepareRequestData_def prepare_body_def ex_node_def ex_image_def ex_env_simps
        ex_store_simps find_Image_def js_defs process_ports_def portMapping_check_def parse_defs)

subsection \<open>The image catalog\<close>

lemma find_loop_lacks:
  "list_all (\<lambda>x. \<not> nullish x \<and> get x ''Image'' \<noteq> JStr img) xs \<Longrightarrow> find_loop xs img = Inr JUndefined"
  by (induction xs) (simp_all add: read_prop_get)

lemma find_Image_lacks:
  "catalog_lacks cat img \<Longrightarrow> find_Image (js_or cat (JArr [])) img = Inr JUndefined"
  by (cases cat) (simp_all add: catalog_lacks_def js_or_def find_Image_def find_loop_lacks)

lemma read_prop_TypeError: "read_prop v k = Inl e \<Longrightarrow> is_TypeError e"
  by (cases v) (auto simp: is_TypeError_def)

lemma find_loop_TypeError: "find_loop xs img = Inl e \<Longrightarrow> is_TypeError e"
  by (induction xs) (auto split: sum.splits if_splits dest: read_prop_TypeError)

lemma find_Image_TypeError: "find_Image raw img = Inl e \<Longrightarrow> is_TypeError e"
  by (cases raw) (auto simp: find_Image_def is_TypeError_def dest: find_loop_TypeError)

lemma filter_loop_TypeError: "filter_loop xs iid = Inl e \<Longrightarrow> is_TypeError e"
  by (induction xs) (auto split: sum.splits if_splits dest: read_prop_TypeError)

lemma filter_Id_TypeError: "filter_Id v iid = Inl e \<Longrightarrow> is_TypeError e"
  by (cases v) (auto simp: filter_Id_def is_TypeError_def dest: filter_loop_TypeError)

lemma some_loop_TypeError: "some_loop xs iid = Inl e \<Longrightarrow> is_TypeError e"
  by (induction xs) (auto split: sum.splits if_splits dest: read_prop_TypeError)

lemma some_Id_TypeError: "some_Id v iid = Inl e \<Longrightarrow> is_TypeError e"
  by (cases v) (auto simp: some_Id_def is_TypeError_def split: sum.splits dest: some_loop_TypeError)

lemma verification_failed_TypeError: "verification_failed vs iid = Inl e \<Longrightarrow> is_TypeError e"
  by (auto simp: verification_failed_def split: sum.splits if_splits dest: some_Id_TypeError)

lemma update_lists_TypeError:
  "fst (update_lists env st rd uid node img memory cpu ports primary name iid Env imagedata) = Inl e
   \<Longrightarrow> is_TypeError e"
  by (auto simp: update_lists_def Let_def split: sum.splits
           dest: find_Image_TypeError read_prop_TypeError filter_Id_TypeError)

lemma update_verify_error:
  "update_verify env st uid iid = Inl e \<Longrightarrow>
   is_TypeError e \<or> e = Error ''Database verification failed after update''"
  by (auto simp: update_verify_def Let_def split: sum.splits if_splits
           dest: verification_failed_TypeError)

lemma update_error:
  assumes "fst (updateDatabaseWithNewInstance env st rd uid node img memory cpu ports primary name
                  iid Env imagedata) = Inl e"
  shows "is_TypeError e \<or> e = Error ''Database verification failed after update''"
proof (cases "update_lists env st rd uid node img memory cpu ports primary name iid Env imagedata")
  case (Pair r t)
  show ?thesis
  proof (cases r)
    case (Inl e')
    with Pair assms have "e' = e"
      by (simp add: updateDatabaseWithNewInstance_def update_body_def)
    with Pair Inl show ?thesis using update_lists_TypeError [of env st rd uid node img memory cpu
        ports primary name iid Env imagedata e] by simp
  next
    case (Inr x)
    obtain inst uu ug where x: "x = (inst, uu, ug)" by (cases x)
    from Pair Inr x assms have
      "update_verify env (update_writes env st uid iid inst uu ug) uid iid = Inl e"
      by (simp add: updateDatabaseWithNewInstance_def update_body_def Let_def split: sum.splits)
    then show ?thesis by (rule update_verify_error)
  qed
qed

subsection \<open>The update of the store\<close>

lemma filter_loop_ok:
  "\<forall>x \<in> set xs. \<not> nullish x \<Longrightarrow>
   filter_loop xs iid = Inr (filter (\<lambda>x. get x ''Id'' \<noteq> JStr iid) xs)"
  by (induction xs) (simp_all add: read_prop_get)

lemma some_loop_snoc:
  "\<forall>x \<in> set xs. \<not> nullish x \<Longrightarrow> \<not> nullish inst \<Longrightarrow> get inst ''Id'' = JStr iid \<Longrightarrow>
   some_loop (xs @ [inst]) iid = Inr True"
  by (induction xs) (simp_all add: read_prop_get)

lemma instanceData_Id: "get (instanceData env imageData cid uid node img memory cpu ports primary name iid Env imagedata) ''Id'' = JStr iid"
  by (simp add: instanceData_def get_def)

lemma instanceData_not_nullish: "\<not> nullish (instanceData env imageData cid uid node img memory cpu ports primary name iid Env imagedata)"
  by (simp add: instanceData_def nullish_def)

lemma update_lists_ok:
  assumes us: "kv_get env st (to_str uid @ ''_instances'') = JArr us"
    and gs: "kv_get env st ''instances'' = JArr gs"
    and nn: "\<forall>x \<in> set us \<union> set gs. \<not> nullish x"
    and img: "find_Image (js_or (kv_get env st ''images'') (JArr [])) img = Inr found"
    and rd: "\<not> nullish rd"
  shows "update_lists env st rd uid node img memory cpu ports primary name iid Env imagedata =
     (let inst = instanceData env (js_or found (JObj [(''AltImages'', JArr [])]))
                   (get rd ''containerId'') uid node img memory cpu ports primary name iid Env imagedata
      in (Inr (inst, filter (\<lambda>x. get x ''Id'' \<noteq> JStr iid) us @ [inst],
                     filter (\<lambda>x. get x ''Id'' \<noteq> JStr iid) gs @ [inst]),
          [DbGet ''images'', DbGet (to_str uid @ ''_instances''), DbGet ''instances'']))"
  using assms
  by (simp add: update_lists_def Let_def db_get_def js_or_def Promise_all_def read_prop_get
        filter_Id_def filter_loop_ok)

lemma update_lists_keyv:
  assumes us: "st (to_str uid @ ''_instances'') = JArr us"
    and gs: "st ''instances'' = JArr gs"
    and nn: "\<forall>x \<in> set us \<union> set gs. \<not> nullish x"
    and img: "find_Image (js_or (st ''images'') (JArr [])) img = Inr found"
    and rd: "\<not> nullish rd"
  shows "update_lists (keyv ax u n) st rd uid node img memory cpu ports primary name iid Env imagedata =
     (let inst = instanceData (keyv ax u n) (js_or found (JObj [(''AltImages'', JArr [])]))
                   (get rd ''containerId'') uid node img memory cpu ports primary name iid Env imagedata
      in (Inr (inst, filter (\<lambda>x. get x ''Id'' \<noteq> JStr iid) us @ [inst],
                     filter (\<lambda>x. get x ''Id'' \<noteq> JStr iid) gs @ [inst]),
          [DbGet ''images'', DbGet (to_str uid @ ''_instances''), DbGet ''instances'']))"
  using assms
  by (simp add: update_lists_def Let_def db_get_def js_or_def Promise_all_def read_prop_get
        filter_Id_def filter_loop_ok)

lemma update_keyv:
  assumes us: "st (to_str uid @ ''_instances'') = JArr us"
    and gs: "st ''instances'' = JArr gs"
    and nn: "\<forall>x \<in> set us \<union> set gs. \<not> nullish x"
    and img: "find_Image (js_or (st ''images'') (JArr [])) img = Inr found"
    and rd: "\<not> nullish rd"
  shows "\<exists>t. updateDatabaseWithNewInstance (keyv ax u n) st rd uid node img memory cpu ports primary
            name iid Env imagedata =
     (let inst = instanceData (keyv ax u n) (js_or found (JObj [(''AltImages'', JArr [])]))
                   (get rd ''containerId'') uid node img memory cpu ports primary name iid Env imagedata
      in (Inr (),
          st(to_str uid @ ''_instances'' := JArr (filter (\<lambda>x. get x ''Id'' \<noteq> JStr iid) us @ [inst]),
             ''instances'' := JArr (filter (\<lambda>x. get x ''Id'' \<noteq> JStr iid) gs @ [inst]),
             iid @ ''_instance'' := inst),
          t))"
proof -
  let ?inst = "instanceData (keyv ax u n) (js_or found (JObj [(''AltImages'', JArr [])]))
                 (get rd ''containerId'') uid node img memory cpu ports primary name iid Env imagedata"
  let ?keep = "filter (\<lambda>x. get x ''Id'' \<noteq> JStr iid)"
  let ?st3 = "st(to_str uid @ ''_instances'' := JArr (?keep us @ [?inst]),
                 ''instances'' := JArr (?keep gs @ [?inst]),
                 iid @ ''_instance'' := ?inst)"
  have w: "update_writes (keyv ax u n) st uid iid ?inst (?keep us @ [?inst]) (?keep gs @ [?inst]) = ?st3"
    by (simp add: update_writes_def db_set_def Let_def)
  have su: "some_loop (?keep us @ [?inst]) iid = Inr True"
    using nn by (intro some_loop_snoc) (auto simp: instanceData_Id instanceData_not_nullish)
  have sg: "some_loop (?keep gs @ [?inst]) iid = Inr True"
    using nn by (intro some_loop_snoc) (auto simp: instanceData_Id instanceData_not_nullish)
  have tr: "truthy ?inst" by (simp add: instanceData_def)
  have v: "update_verify (keyv ax u n) ?st3 uid iid = Inr ()"
    using su sg tr
    by (simp add: update_verify_def Let_def db_get_def Promise_all_def verification_failed_def
          some_Id_def key_distinct)
  show ?thesis
    using update_lists_keyv [OF us gs nn img rd, of ax u n node memory cpu ports primary name iid Env imagedata]
    by (simp add: updateDatabaseWithNewInstance_def update_body_def Let_def w v)
qed

lemma count_Id_snoc:
  "get inst ''Id'' = JStr iid \<Longrightarrow>
   count_Id (JArr (filter (\<lambda>x. get x ''Id'' \<noteq> JStr iid) xs @ [inst])) iid = 1"
  by (simp add: count_Id_def)

lemma other_entries_snoc:
  "get inst ''Id'' = JStr iid \<Longrightarrow>
   other_entries (JArr (filter (\<lambda>x. get x ''Id'' \<noteq> JStr iid) xs @ [inst])) iid
     = filter (\<lambda>x. get x ''Id'' \<noteq> JStr iid) xs"
  by (simp add: other_entries_def)

lemma update_keyv_effect:
  assumes us: "st (to_str uid @ ''_instances'') = JArr us"
    and gs: "st ''instances'' = JArr gs"
    and nn: "\<forall>x \<in> set us \<union> set gs. \<not> nullish x"
    and img: "find_Image (js_or (st ''images'') (JArr [])) img = Inr found"
    and rd: "\<not> nullish rd"
  shows "\<exists>st' t us' gs'.
     updateDatabaseWithNewInstance (keyv ax u n) st rd uid node img memory cpu ports primary
        name iid Env imagedata = (Inr (), st', t) \<and>
     st' (to_str uid @ ''_instances'') = JArr us' \<and> st' ''instances'' = JArr gs' \<and>
     st' ''images'' = st ''images'' \<and>
     (\<forall>x \<in> set us' \<union> set gs'. \<not> nullish x) \<and>
     count_Id (JArr us') iid = 1 \<and> count_Id (JArr gs') iid = 1 \<and>
     other_entries (JArr us') iid = other_entries (JArr us) iid \<and> other_entries (JArr gs') iid = other_entries (JArr gs) iid \<and>
     get (st' (iid @ ''_instance'')) ''Id'' = JStr iid"
proof -
  let ?inst = "instanceData (keyv ax u n) (js_or found (JObj [(''AltImages'', JArr [])]))
                 (get rd ''containerId'') uid node img memory cpu ports primary name iid Env imagedata"
  let ?keep = "filter (\<lambda>x. get x ''Id'' \<noteq> JStr iid)"
  let ?st3 = "st(to_str uid @ ''_instances'' := JArr (?keep us @ [?inst]),
                 ''instances'' := JArr (?keep gs @ [?inst]),
                 iid @ ''_instance'' := ?inst)"
  from update_keyv [OF us gs nn img rd, of ax u n node memory cpu ports primary name iid Env imagedata]
  obtain t where run: "updateDatabaseWithNewInstance (keyv ax u n) st rd uid node img memory cpu
      ports primary name iid Env imagedata = (Inr (), ?st3, t)"
    by (auto simp: Let_def)
  have a: "?st3 (to_str uid @ ''_instances'') = JArr (?keep us @ [?inst])"
    by (simp add: key_distinct)
  have b: "?st3 ''instances'' = JArr (?keep gs @ [?inst])"
    by (simp add: key_distinct)
  have c: "?st3 ''images'' = st ''images''"
    by (simp add: key_distinct)
  have d: "\<forall>x \<in> set (?keep us @ [?inst]) \<union> set (?keep gs @ [?inst]). \<not> nullish x"
    using nn by (auto simp: instanceData_not_nullish)
  have e: "get (?st3 (iid @ ''_instance'')) ''Id'' = JStr iid"
    by (simp add: instanceData_Id)
  have f: "count_Id (JArr (?keep us @ [?inst])) iid = 1" "count_Id (JArr (?keep gs @ [?inst])) iid = 1"
    by (simp_all add: count_Id_snoc instanceData_Id)
  have g: "other_entries (JArr (?keep us @ [?inst])) iid = other_entries (JArr us) iid"
     "other_entries (JArr (?keep gs @ [?inst])) iid = other_entries (JArr gs) iid"
    by (simp_all add: other_entries_def instanceData_Id)
  show ?thesis
    using run a b c d e f g by blast
qed

lemma ex_instanceData:
  "now env = ''2024-01-01T00:00:00.000Z'' \<Longrightarrow>
   instanceData env (js_or ex_image (JObj [(''AltImages'', JArr [])])) (JStr ''c2'') (JStr ''u1'')
     ex_node ''nginx'' (JStr ''512'') (JStr ''1'') (JStr ''80:8080'') (JStr ''80'') (JStr ''web'')
     ''i1'' (JArr []) JUndefined = ex_new"
  by (simp add: instanceData_def ex_new_def ex_image_def js_defs parse_defs)

lemma store_keeps_keyv: "store_keeps (keyv ax u n)"
  by (simp add: store_keeps_def)

lemma update_writes_keeps:
  assumes "store_keeps env"
  shows "kv_get env (update_writes env st uid iid inst uu ug) k =
     (if k = iid @ ''_instance'' then inst
      else if k = ''instances'' then JArr ug
      else if k = to_str uid @ ''_instances'' then JArr uu
      else kv_get env st k)"
  using assms by (simp add: update_writes_def db_set_def Let_def store_keeps_def)

lemma update_keeps:
  assumes keeps: "store_keeps env"
    and us: "kv_get env st (to_str uid @ ''_instances'') = JArr us"
    and gs: "kv_get env st ''instances'' = JArr gs"
    and nn: "\<forall>x \<in> set us \<union> set gs. \<not> nullish x"
    and img: "find_Image (js_or (kv_get env st ''images'') (JArr [])) img = Inr found"
    and rd: "\<not> nullish rd"
    and inst: "inst = instanceData env (js_or found (JObj [(''AltImages'', JArr [])]))
                 (get rd ''containerId'') uid node img memory cpu ports primary name iid Env imagedata"
  shows "\<exists>t. updateDatabaseWithNewInstance env st rd uid node img memory cpu ports primary
            name iid Env imagedata =
     (Inr (),
      update_writes env st uid iid inst
        (filter (\<lambda>x. get x ''Id'' \<noteq> JStr iid) us @ [inst])
        (filter (\<lambda>x. get x ''Id'' \<noteq> JStr iid) gs @ [inst]),
      t)"
proof -
  let ?keep = "filter (\<lambda>x. get x ''Id'' \<noteq> JStr iid)"
  let ?st3 = "update_writes env st uid iid inst (?keep us @ [inst]) (?keep gs @ [inst])"
  have su: "some_loop (?keep us @ [inst]) iid = Inr True"
    using nn unfolding inst
    by (intro some_loop_snoc) (auto simp: instanceData_Id instanceData_not_nullish)
  have sg: "some_loop (?keep gs @ [inst]) iid = Inr True"
    using nn unfolding inst
    by (intro some_loop_snoc) (auto simp: instanceData_Id instanceData_not_nullish)
  have tr: "truthy inst" unfolding inst by (simp add: instanceData_def)
  have v: "update_verify env ?st3 uid iid = Inr ()"
    using su sg tr
    by (simp add: update_verify_def Let_def db_get_def Promise_all_def verification_failed_def
          some_Id_def update_writes_keeps [OF keeps] key_distinct)
  show ?thesis
    using update_lists_ok [OF us gs nn img rd, of node memory cpu ports primary name iid Env imagedata]
    by (simp add: updateDatabaseWithNewInstance_def update_body_def Let_def v inst [symmetric])
qed

lemma update_lists_lacks:
  assumes lacks: "catalog_lacks (kv_get env st ''images'') img"
    and rd: "\<not> nullish rd"
    and fu: "filter_Id (kv_get env st (to_str uid @ ''_instances'')) iid = Inr fu"
    and fg: "filter_Id (kv_get env st ''instances'') iid = Inr fg"
    and inst: "inst = instanceData env (JObj [(''AltImages'', JArr [])]) (get rd ''containerId'')
                 uid node img memory cpu ports primary name iid Env imagedata"
  shows "update_lists env st rd uid node img memory cpu ports primary name iid Env imagedata =
     (Inr (inst, fu @ [inst], fg @ [inst]),
      [DbGet ''images'', DbGet (to_str uid @ ''_instances''), DbGet ''instances''])"
  using find_Image_lacks [OF lacks] fu fg rd
  by (simp add: update_lists_def Let_def db_get_def js_or_def Promise_all_def read_prop_get inst)

text \<open>
  C8. When the image catalog has no entry for the image name, \<^verbatim>\<open>prepareRequestData\<close>
  throws the error that the image was not found. \<^verbatim>\<open>updateDatabaseWithNewInstance\<close> goes
  on with \<^verbatim>\<open>{AltImages: []}\<close>: the record it builds has the empty list for \<^verbatim>\<open>AltImages\<close>;
  whenever the response is there and the two lists can be filtered, the lists it computes
  are the filtered ones followed by that record; on a store that keeps what it is given,
  with the two lists present, the whole update succeeds and that record is under the
  instance's key. Whatever the update may throw, it is not the image-not-found error.
\<close>

theorem missing_image_strict_and_tolerant:
  assumes lacks: "catalog_lacks (kv_get env st ''images'') img"
    and inst: "inst = instanceData env (JObj [(''AltImages'', JArr [])]) (get rd ''containerId'')
                 uid node' img memory' cpu' ports' primary name' iid' Env' imagedata"
  shows "fst (prepareRequestData env st img memory cpu ports name node iid cid Env)
           = Inl (Error (''Image '' @ img @ '' not found in database'')) \<and>
         get inst ''AltImages'' = JArr [] \<and>
         (\<not> nullish rd \<and>
          filter_Id (kv_get env st (to_str uid @ ''_instances'')) iid' = Inr fu \<and>
          filter_Id (kv_get env st ''instances'') iid' = Inr fg \<longrightarrow>
            update_lists env st rd uid node' img memory' cpu' ports' primary name' iid' Env'
              imagedata =
              (Inr (inst, fu @ [inst], fg @ [inst]),
               [DbGet ''images'', DbGet (to_str uid @ ''_instances''), DbGet ''instances''])) \<and>
         (store_keeps env \<and> \<not> nullish rd \<and>
          kv_get env st (to_str uid @ ''_instances'') = JArr us \<and>
          kv_get env st ''instances'' = JArr gs \<and>
          list_all (\<lambda>x. \<not> nullish x) (us @ gs) \<longrightarrow>
            fst (updateDatabaseWithNewInstance env st rd uid node' img memory' cpu' ports' primary
                   name' iid' Env' imagedata) = Inr () \<and>
            kv_get env
              (fst (snd (updateDatabaseWithNewInstance env st rd uid node' img memory' cpu' ports'
                           primary name' iid' Env' imagedata)))
              (iid' @ ''_instance'') = inst) \<and>
         (\<forall>e. fst (updateDatabaseWithNewInstance env st rd uid node' img memory' cpu' ports'
                      primary name' iid' Env' imagedata) = Inl e
               \<longrightarrow> e \<noteq> Error (''Image '' @ img @ '' not found in database''))"
proof -
  have a: "fst (prepareRequestData env st img memory cpu ports name node iid cid Env)
           = Inl (Error (''Image '' @ img @ '' not found in database''))"
    using find_Image_lacks [OF lacks]
    by (simp add: prepareRequestData_def prepare_body_def db_get_def)
  have b: "get inst ''AltImages'' = JArr []"
    unfolding inst by (simp add: instanceData_def get_def js_or_def)
  have c: "update_lists env st rd uid node' img memory' cpu' ports' primary name' iid' Env'
              imagedata =
              (Inr (inst, fu @ [inst], fg @ [inst]),
               [DbGet ''images'', DbGet (to_str uid @ ''_instances''), DbGet ''instances''])"
    if "\<not> nullish rd" "filter_Id (kv_get env st (to_str uid @ ''_instances'')) iid' = Inr fu"
       "filter_Id (kv_get env st ''instances'') iid' = Inr fg"
    using update_lists_lacks [OF lacks that inst] .
  have d: "fst (updateDatabaseWithNewInstance env st rd uid node' img memory' cpu' ports' primary
                   name' iid' Env' imagedata) = Inr () \<and>
            kv_get env
              (fst (snd (updateDatabaseWithNewInstance env st rd uid node' img memory' cpu' ports'
                           primary name' iid' Env' imagedata)))
              (iid' @ ''_instance'') = inst"
    if keeps: "store_keeps env" and rd: "\<not> nullish rd"
      and us: "kv_get env st (to_str uid @ ''_instances'') = JArr us"
      and gs: "kv_get env st ''instances'' = JArr gs"
      and nn: "list_all (\<lambda>x. \<not> nullish x) (us @ gs)"
  proof -
    have nn': "\<forall>x \<in> set us \<union> set gs. \<not> nullish x"
      using nn by (auto simp: list_all_iff)
    have inst': "inst = instanceData env (js_or JUndefined (JObj [(''AltImages'', JArr [])]))
                 (get rd ''containerId'') uid node' img memory' cpu' ports' primary name' iid' Env'
                 imagedata"
      unfolding inst by (simp add: js_or_def)
    from update_keeps [OF keeps us gs nn' find_Image_lacks [OF lacks] rd inst']
    obtain t where "updateDatabaseWithNewInstance env st rd uid node' img memory' cpu' ports'
        primary name' iid' Env' imagedata =
        (Inr (),
         update_writes env st uid iid' inst
           (filter (\<lambda>x. get x ''Id'' \<noteq> JStr iid') us @ [inst])
           (filter (\<lambda>x. get x ''Id'' \<noteq> JStr iid') gs @ [inst]), t)"
      by blast
    then show ?thesis by (simp add: update_writes_keeps [OF keeps])
  qed
  have e: "e \<noteq> Error (''Image '' @ img @ '' not found in database'')"
    if "fst (updateDatabaseWithNewInstance env st rd uid node' img memory' cpu' ports'
               primary name' iid' Env' imagedata) = Inl e" for e
    using update_error [OF that] by (auto simp: is_TypeError_def)
  from a b c d e show ?thesis by blast
qed

theorem missing_image_strict_and_tolerant_witness:
  "catalog_lacks (kv_get ex_env ex_store_no_image ''images'') ''nginx'' \<and>
   store_keeps ex_env \<and> \<not> nullish ex_response \<and>
   kv_get ex_env ex_store_no_image (to_str (JStr ''u1'') @ ''_instances'')
     = JArr [ex_instance, ex_instance] \<and>
   kv_get ex_env ex_store_no_image ''instances'' = JArr [ex_other, ex_instance] \<and>
   list_all (\<lambda>x. \<not> nullish x) ([ex_instance, ex_instance] @ [ex_other, ex_instance]) \<and>
   fst (prepareRequestData ex_env ex_store_no_image ''nginx'' (JStr ''512'') (JStr ''1'')
          (JStr ''80:8080'') (JStr ''web'') ex_node ''i1'' (JStr ''c1'') (JArr []))
     = Inl (Error ''Image nginx not found in database'') \<and>
   (case fst (update_lists ex_env ex_store_no_image ex_response (JStr ''u1'') ex_node ''nginx''
                (JStr ''512'') (JStr ''1'') (JStr ''80:8080'') (JStr ''80'') (JStr ''web'') ''i1''
                (JArr []) JUndefined) of
      Inl e \<Rightarrow> False
    | Inr (inst, uu, ug) \<Rightarrow>
        uu = [inst] \<and> ug = [ex_other, inst] \<and> get inst ''AltImages'' = JArr [] \<and>
        get inst ''ContainerId'' = JStr ''c2'') \<and>
   fst (updateDatabaseWithNewInstance ex_env ex_store_no_image ex_response (JStr ''u1'') ex_node
          ''nginx'' (JStr ''512'') (JStr ''1'') (JStr ''80:8080'') (JStr ''80'') (JStr ''web'')
          ''i1'' (JArr []) JUndefined) = Inr () \<and>
   get (kv_get ex_env
         (fst (snd (updateDatabaseWithNewInstance ex_env ex_store_no_image ex_response (JStr ''u1'')
            ex_node ''nginx'' (JStr ''512'') (JStr ''1'') (JStr ''80:8080'') (JStr ''80'')
            (JStr ''web'') ''i1'' (JArr []) JUndefined))) ''i1_instance'') ''AltImages'' = JArr [] \<and>
   get (kv_get ex_env
         (fst (snd (updateDatabaseWithNewInstance ex_env ex_store_no_image ex_response (JStr ''u1'')
            ex_node ''nginx'' (JStr ''512'') (JStr ''1'') (JStr ''80:8080'') (JStr ''80'')
            (JStr ''web'') ''i1'' (JArr []) JUndefined))) ''i1_instance'') ''ContainerId''
     = JStr ''c2''"
proof -
  have s: "kv_get ex_env ex_store_no_image ''images'' = JUndefined"
    "kv_get ex_env ex_store_no_image (to_str (JStr ''u1'') @ ''_instances'')
       = JArr [ex_instance, ex_instance]"
    "kv_get ex_env ex_store_no_image ''instances'' = JArr [ex_other, ex_instance]"
    by (simp_all add: ex_env_simps ex_store_no_image_def ex_store_simps)
  have h: "catalog_lacks (kv_get ex_env ex_store_no_image ''images'') ''nginx''"
    by (simp add: s catalog_lacks_def)
  have k: "store_keeps ex_env"
    unfolding ex_env_def by (rule store_keeps_keyv)
  have nn: "list_all (\<lambda>x. \<not> nullish x) ([ex_instance, ex_instance] @ [ex_other, ex_instance])"
    by (simp add: ex_values)
  have f: "filter_Id (kv_get ex_env ex_store_no_image (to_str (JStr ''u1'') @ ''_instances'')) ''i1''
             = Inr []"
    "filter_Id (kv_get ex_env ex_store_no_image ''instances'') ''i1'' = Inr [ex_other]"
    unfolding s by (simp_all add: filter_Id_def read_prop_get ex_values)
  have g: "get (instanceData ex_env (JObj [(''AltImages'', JArr [])]) (get ex_response ''containerId'')
             (JStr ''u1'') ex_node ''nginx'' (JStr ''512'') (JStr ''1'') (JStr ''80:8080'')
             (JStr ''80'') (JStr ''web'') ''i1'' (JArr []) JUndefined) ''ContainerId'' = JStr ''c2''"
    by (simp add: instanceData_def get_def ex_response_def)
  note t = missing_image_strict_and_tolerant [where env = ex_env and st = ex_store_no_image
      and img = "''nginx''" and rd = ex_response and uid = "JStr ''u1''" and node' = ex_node
      and memory' = "JStr ''512''" and cpu' = "JStr ''1''" and ports' = "JStr ''80:8080''"
      and primary = "JStr ''80''" and name' = "JStr ''web''" and iid' = "''i1''"
      and Env' = "JArr []" and imagedata = JUndefined
      and memory = "JStr ''512''" and cpu = "JStr ''1''" and ports = "JStr ''80:8080''"
      and name = "JStr ''web''" and node = ex_node and iid = "''i1''" and cid = "JStr ''c1''"
      and Env = "JArr []"
      and fu = "[]" and fg = "[ex_other]"
      and us = "[ex_instance, ex_instance]" and gs = "[ex_other, ex_instance]",
      OF h refl]
  show ?thesis
    using t h k nn s(2,3) ex_values(14) f g by simp
qed

lemma ex_absent_list_runs:
  "updateDatabaseWithNewInstance ex_env ex_store_new_user ex_response (JStr ''u1'') ex_node ''nginx''
     (JStr ''512'') (JStr ''1'') (JStr ''80:8080'') (JStr ''80'') (JStr ''web'') ''i1'' (JArr [])
     JUndefined =
     (Inl (TypeError ''Cannot read properties of undefined (reading filter)''), ex_store_new_user,
      [DbGet ''images'', DbGet ''u1_instances'', DbGet ''instances'',
       ConsoleError ''Database update error:''])"
  "updateDatabaseWithNewInstance ex_env ex_store_first ex_response (JStr ''u1'') ex_node ''nginx''
     (JStr ''512'') (JStr ''1'') (JStr ''80:8080'') (JStr ''80'') (JStr ''web'') ''i1'' (JArr [])
     JUndefined =
     (Inl (TypeError ''Cannot read properties of undefined (reading filter)''), ex_store_first,
      [DbGet ''images'', DbGet ''u1_instances'', DbGet ''instances'',
       ConsoleError ''Database update error:''])"
proof -
  have s1: "ex_store_new_user ''images'' = JArr [ex_image]"
    "ex_store_new_user ''u1_instances'' = JUndefined"
    "ex_store_new_user ''instances'' = JArr [ex_other, ex_instance]"
    by (simp_all add: ex_store_new_user_def ex_store_simps)
  have s2: "ex_store_first ''images'' = JArr [ex_image]"
    "ex_store_first ''u1_instances'' = JArr [ex_instance, ex_instance]"
    "ex_store_first ''instances'' = JUndefined"
    by (simp_all add: ex_store_first_def ex_store_simps)
  have f: "filter_Id (JArr [ex_instance, ex_instance]) ''i1'' = Inr []"
    by (simp add: filter_Id_def read_prop_get ex_values)
  have r: "read_prop ex_response ''containerId'' = Inr (JStr ''c2'')"
    "find_Image (JArr [ex_image]) ''nginx'' = Inr ex_image"
    by (simp_all add: ex_response_def find_Image_def ex_image_def)
  show "updateDatabaseWithNewInstance ex_env ex_store_new_user ex_response (JStr ''u1'') ex_node
     ''nginx'' (JStr ''512'') (JStr ''1'') (JStr ''80:8080'') (JStr ''80'') (JStr ''web'') ''i1''
     (JArr []) JUndefined =
     (Inl (TypeError ''Cannot read properties of undefined (reading filter)''), ex_store_new_user,
      [DbGet ''images'', DbGet ''u1_instances'', DbGet ''instances'',
       ConsoleError ''Database update error:''])"
    by (simp add: updateDatabaseWithNewInstance_def update_body_def update_lists_def Let_def
          db_get_def ex_env_simps s1 ex_values r js_or_def Promise_all_def filter_Id_def)
  show "updateDatabaseWithNewInstance ex_env ex_store_first ex_response (JStr ''u1'') ex_node
     ''nginx'' (JStr ''512'') (JStr ''1'') (JStr ''80:8080'') (JStr ''80'') (JStr ''web'') ''i1''
     (JArr []) JUndefined =
     (Inl (TypeError ''Cannot read properties of undefined (reading filter)''), ex_store_first,
      [DbGet ''images'', DbGet ''u1_instances'', DbGet ''instances'',
       ConsoleError ''Database update error:''])"
    using f
    by (simp add: updateDatabaseWithNewInstance_def update_body_def update_lists_def Let_def
          db_get_def ex_env_simps s2 ex_values r js_or_def Promise_all_def)
       (simp add: filter_Id_def)
qed

text \<open>
  C1. The specification has an absent list key read as the empty list and the update go
  on. In \<^verbatim>\<open>Promise.all([db.get(k) || [], db.get('instances') || []])\<close> the default is
  applied to the promise that \<^verbatim>\<open>db.get\<close> returns, which is never falsy: what the two reads
  yield is what the store holds, \<^verbatim>\<open>undefined\<close> for an absent key. So whenever the user's
  list or the global list is absent, the update throws a TypeError, at \<^verbatim>\<open>.filter\<close> if not
  before, leaves the store as it was and writes nothing.
\<close>

theorem absent_list_key_fails:
  assumes "kv_get env st (to_str uid @ ''_instances'') = JUndefined
           \<or> kv_get env st ''instances'' = JUndefined"
  shows "Promise_all [js_or (db_get env st (to_str uid @ ''_instances'')) (JArr []),
                      js_or (db_get env st ''instances'') (JArr [])]
           = [kv_get env st (to_str uid @ ''_instances''), kv_get env st ''instances''] \<and>
         (\<exists>e t. updateDatabaseWithNewInstance env st rd uid node img memory cpu ports primary name
                   iid Env imagedata = (Inl e, st, t) \<and> is_TypeError e \<and> db_writes t = [])"
proof -
  have a: "Promise_all [js_or (db_get env st (to_str uid @ ''_instances'')) (JArr []),
                      js_or (db_get env st ''instances'') (JArr [])]
           = [kv_get env st (to_str uid @ ''_instances''), kv_get env st ''instances'']"
    by (simp add: Promise_all_def js_or_def db_get_def)
  have u: "filter_Id JUndefined iid
             = Inl (TypeError ''Cannot read properties of undefined (reading filter)'')"
    by (simp add: filter_Id_def)
  obtain r t1 where l: "update_lists env st rd uid node img memory cpu ports primary name iid Env
      imagedata = (r, t1)"
    by (cases "update_lists env st rd uid node img memory cpu ports primary name iid Env imagedata")
  have w: "db_writes t1 = []"
    using l by (auto simp: update_lists_def Let_def split: sum.splits)
  have "\<exists>e. r = Inl e"
    using l assms u
    by (auto simp: update_lists_def Let_def Promise_all_def js_or_def db_get_def split: sum.splits)
  then obtain e where e: "r = Inl e" by blast
  have te: "is_TypeError e"
    using update_lists_TypeError [of env st rd uid node img memory cpu ports primary name iid Env
        imagedata e] l e by simp
  have "updateDatabaseWithNewInstance env st rd uid node img memory cpu ports primary name
          iid Env imagedata = (Inl e, st, t1 @ [ConsoleError ''Database update error:''])"
    using l e by (simp add: updateDatabaseWithNewInstance_def update_body_def)
  moreover have "db_writes (t1 @ [ConsoleError ''Database update error:'']) = []"
    using w by (simp add: db_writes_append)
  ultimately show ?thesis using a te by blast
qed

theorem absent_list_key_fails_witness:
  "kv_get ex_env ex_store_new_user (to_str (JStr ''u1'') @ ''_instances'') = JUndefined \<and>
   kv_get ex_env ex_store_first ''instances'' = JUndefined \<and>
   updateDatabaseWithNewInstance ex_env ex_store_new_user ex_response (JStr ''u1'') ex_node ''nginx''
     (JStr ''512'') (JStr ''1'') (JStr ''80:8080'') (JStr ''80'') (JStr ''web'') ''i1'' (JArr [])
     JUndefined =
     (Inl (TypeError ''Cannot read properties of undefined (reading filter)''), ex_store_new_user,
      [DbGet ''images'', DbGet ''u1_instances'', DbGet ''instances'',
       ConsoleError ''Database update error:'']) \<and>
   updateDatabaseWithNewInstance ex_env ex_store_first ex_response (JStr ''u1'') ex_node ''nginx''
     (JStr ''512'') (JStr ''1'') (JStr ''80:8080'') (JStr ''80'') (JStr ''web'') ''i1'' (JArr [])
     JUndefined =
     (Inl (TypeError ''Cannot read properties of undefined (reading filter)''), ex_store_first,
      [DbGet ''images'', DbGet ''u1_instances'', DbGet ''instances'',
       ConsoleError ''Database update error:''])"
proof -
  have h1: "kv_get ex_env ex_store_new_user (to_str (JStr ''u1'') @ ''_instances'') = JUndefined"
    by (simp add: ex_env_simps ex_store_new_user_def)
  have h2: "kv_get ex_env ex_store_first ''instances'' = JUndefined"
    by (simp add: ex_env_simps ex_store_first_def)
  from absent_list_key_fails [OF disjI1 [OF h1], of ex_response ex_node "''nginx''" "JStr ''512''"
      "JStr ''1''" "JStr ''80:8080''" "JStr ''80''" "JStr ''web''" "''i1''" "JArr []" JUndefined]
  obtain e t where "updateDatabaseWithNewInstance ex_env ex_store_new_user ex_response (JStr ''u1'')
      ex_node ''nginx'' (JStr ''512'') (JStr ''1'') (JStr ''80:8080'') (JStr ''80'') (JStr ''web'')
      ''i1'' (JArr []) JUndefined = (Inl e, ex_store_new_user, t)" "is_TypeError e"
    by blast
  then show ?thesis
    using h1 h2 ex_absent_list_runs by simp
qed

lemma update_absent:
  assumes "kv_get env st (to_str uid @ ''_instances'') = JUndefined
           \<or> kv_get env st ''instances'' = JUndefined"
  shows "\<exists>e t. updateDatabaseWithNewInstance env st rd uid node img memory cpu ports primary name
                   iid Env imagedata = (Inl e, st, t) \<and> is_TypeError e \<and> db_writes t = []"
proof -
  have u: "filter_Id JUndefined iid
             = Inl (TypeError ''Cannot read properties of undefined (reading filter)'')"
    by (simp add: filter_Id_def)
  obtain r t1 where l: "update_lists env st rd uid node img memory cpu ports primary name iid Env
      imagedata = (r, t1)"
    by (cases "update_lists env st rd uid node img memory cpu ports primary name iid Env imagedata")
  have w: "db_writes t1 = []"
    using l by (auto simp: update_lists_def Let_def split: sum.splits)
  have "\<exists>e. r = Inl e"
    using l assms u
    by (auto simp: update_lists_def Let_def Promise_all_def js_or_def db_get_def split: sum.splits)
  then obtain e where e: "r = Inl e" by blast
  have te: "is_TypeError e"
    using update_lists_TypeError [of env st rd uid node img memory cpu ports primary name iid Env
        imagedata e] l e by simp
  have "updateDatabaseWithNewInstance env st rd uid node img memory cpu ports primary name
          iid Env imagedata = (Inl e, st, t1 @ [ConsoleError ''Database update error:''])"
    using l e by (simp add: updateDatabaseWithNewInstance_def update_body_def)
  moreover have "db_writes (t1 @ [ConsoleError ''Database update error:'']) = []"
    using w by (simp add: db_writes_append)
  ultimately show ?thesis using te by blast
qed

lemma keep_snoc:
  "get inst ''Id'' = JStr iid \<Longrightarrow>
   filter (\<lambda>x. get x ''Id'' \<noteq> JStr iid) (filter (\<lambda>x. get x ''Id'' \<noteq> JStr iid) xs @ [inst])
     = filter (\<lambda>x. get x ''Id'' \<noteq> JStr iid) xs"
  by simp

lemma update_keyv_twice:
  assumes us: "st (to_str uid @ ''_instances'') = JArr us"
    and gs: "st ''instances'' = JArr gs"
    and nn: "\<forall>x \<in> set us \<union> set gs. \<not> nullish x"
    and img: "find_Image (js_or (st ''images'') (JArr [])) img = Inr found"
    and rd: "\<not> nullish rd1" "\<not> nullish rd2"
    and i1: "inst1 = instanceData (keyv ax1 u1 n1) (js_or found (JObj [(''AltImages'', JArr [])]))
               (get rd1 ''containerId'') uid node img memory cpu ports primary name iid Env imagedata"
    and i2: "inst2 = instanceData (keyv ax2 u2 n2) (js_or found (JObj [(''AltImages'', JArr [])]))
               (get rd2 ''containerId'') uid node img memory cpu ports primary name iid Env imagedata"
    and st1: "st1 = st(to_str uid @ ''_instances'' := JArr (filter (\<lambda>x. get x ''Id'' \<noteq> JStr iid) us @ [inst1]),
                       ''instances'' := JArr (filter (\<lambda>x. get x ''Id'' \<noteq> JStr iid) gs @ [inst1]),
                       iid @ ''_instance'' := inst1)"
    and st2: "st2 = st(to_str uid @ ''_instances'' := JArr (filter (\<lambda>x. get x ''Id'' \<noteq> JStr iid) us @ [inst2]),
                       ''instances'' := JArr (filter (\<lambda>x. get x ''Id'' \<noteq> JStr iid) gs @ [inst2]),
                       iid @ ''_instance'' := inst2)"
  shows "\<exists>t1 t2.
     updateDatabaseWithNewInstance (keyv ax1 u1 n1) st rd1 uid node img memory cpu ports primary
        name iid Env imagedata = (Inr (), st1, t1) \<and>
     updateDatabaseWithNewInstance (keyv ax2 u2 n2) st1 rd2 uid node img memory cpu ports primary
        name iid Env imagedata = (Inr (), st2, t2)"
proof -
  let ?keep = "filter (\<lambda>x. get x ''Id'' \<noteq> JStr iid)"
  from update_keyv [OF us gs nn img rd(1), of ax1 u1 n1 node memory cpu ports primary name iid Env
      imagedata]
  obtain t1 where r1: "updateDatabaseWithNewInstance (keyv ax1 u1 n1) st rd1 uid node img memory cpu
      ports primary name iid Env imagedata = (Inr (), st1, t1)"
    unfolding st1 i1 by (auto simp: Let_def)
  have id1: "get inst1 ''Id'' = JStr iid" unfolding i1 by (rule instanceData_Id)
  have n1: "\<not> nullish inst1" unfolding i1 by (rule instanceData_not_nullish)
  have us1: "st1 (to_str uid @ ''_instances'') = JArr (?keep us @ [inst1])"
    unfolding st1 by (simp add: key_distinct)
  have gs1: "st1 ''instances'' = JArr (?keep gs @ [inst1])"
    unfolding st1 by (simp add: key_distinct)
  have im1: "st1 ''images'' = st ''images''"
    unfolding st1 by (simp add: key_distinct)
  have nn1: "\<forall>x \<in> set (?keep us @ [inst1]) \<union> set (?keep gs @ [inst1]). \<not> nullish x"
    using nn n1 by auto
  from img im1 have img1: "find_Image (js_or (st1 ''images'') (JArr [])) img = Inr found" by simp
  have e: "st1(to_str uid @ ''_instances'' := JArr (?keep (?keep us @ [inst1]) @ [inst2]),
               ''instances'' := JArr (?keep (?keep gs @ [inst1]) @ [inst2]),
               iid @ ''_instance'' := inst2) = st2"
    unfolding st1 st2 keep_snoc [OF id1] by (rule ext) (simp add: key_distinct)
  from update_keyv [OF us1 gs1 nn1 img1 rd(2), of ax2 u2 n2 node memory cpu ports primary name iid
      Env imagedata]
  obtain t2 where r2: "updateDatabaseWithNewInstance (keyv ax2 u2 n2) st1 rd2 uid node img memory cpu
      ports primary name iid Env imagedata = (Inr (), st2, t2)"
    unfolding i2 [symmetric] Let_def e by blast
  from r1 r2 show ?thesis by blast
qed

text \<open>
  C5. On a store that keeps what it is given, with the two lists present, an update writes
  for each list the entries that have another id, followed by the new record, and the new
  record under the instance's key. A second update, whatever the node agent answered by
  then, leaves the entries that have another id followed by the second record: each list
  holds exactly one entry with the instance id, the newest. As the specification has it, this
  is so for every prior state of the two lists. With the user's list or the global list
  absent it is not: both updates throw a TypeError and leave the store as it was, with no
  entry for the instance (the misplaced default of C1).
\<close>

theorem redeploy_replaces:
  assumes img: "find_Image (js_or (st ''images'') (JArr [])) img = Inr found"
    and rd: "\<not> nullish rd" "\<not> nullish rd'"
    and i: "inst = instanceData (keyv ax u n) (js_or found (JObj [(''AltImages'', JArr [])]))
               (get rd ''containerId'') uid node img memory cpu ports primary name iid Env imagedata"
    and i': "inst' = instanceData (keyv ax' u' n') (js_or found (JObj [(''AltImages'', JArr [])]))
               (get rd' ''containerId'') uid node img memory cpu ports primary name iid Env imagedata"
    and r: "run = updateDatabaseWithNewInstance (keyv ax u n) st rd uid node img memory cpu
               ports primary name iid Env imagedata"
    and r': "run' = updateDatabaseWithNewInstance (keyv ax' u' n') (fst (snd run)) rd' uid node img
               memory cpu ports primary name iid Env imagedata"
  shows "(st (to_str uid @ ''_instances'') = JArr us \<and> st ''instances'' = JArr gs \<and>
          list_all (\<lambda>x. \<not> nullish x) (us @ gs) \<longrightarrow>
            fst run = Inr () \<and>
            fst (snd run) =
              st(to_str uid @ ''_instances'' := JArr (filter (\<lambda>x. get x ''Id'' \<noteq> JStr iid) us @ [inst]),
                 ''instances'' := JArr (filter (\<lambda>x. get x ''Id'' \<noteq> JStr iid) gs @ [inst]),
                 iid @ ''_instance'' := inst) \<and>
            fst run' = Inr () \<and>
            fst (snd run') =
              st(to_str uid @ ''_instances'' := JArr (filter (\<lambda>x. get x ''Id'' \<noteq> JStr iid) us @ [inst']),
                 ''instances'' := JArr (filter (\<lambda>x. get x ''Id'' \<noteq> JStr iid) gs @ [inst']),
                 iid @ ''_instance'' := inst') \<and>
            count_Id (fst (snd run') (to_str uid @ ''_instances'')) iid = 1 \<and>
            count_Id (fst (snd run') ''instances'') iid = 1) \<and>
         (st (to_str uid @ ''_instances'') = JUndefined \<or> st ''instances'' = JUndefined \<longrightarrow>
            (\<exists>e. fst run = Inl e \<and> is_TypeError e) \<and> fst (snd run) = st \<and>
            (\<exists>e. fst run' = Inl e \<and> is_TypeError e) \<and> fst (snd run') = st)"
proof -
  let ?keep = "filter (\<lambda>x. get x ''Id'' \<noteq> JStr iid)"
  let ?st1 = "st(to_str uid @ ''_instances'' := JArr (?keep us @ [inst]),
                 ''instances'' := JArr (?keep gs @ [inst]),
                 iid @ ''_instance'' := inst)"
  let ?st2 = "st(to_str uid @ ''_instances'' := JArr (?keep us @ [inst']),
                 ''instances'' := JArr (?keep gs @ [inst']),
                 iid @ ''_instance'' := inst')"
  have present: "fst run = Inr () \<and> fst (snd run) = ?st1 \<and> fst run' = Inr () \<and>
      fst (snd run') = ?st2 \<and>
      count_Id (fst (snd run') (to_str uid @ ''_instances'')) iid = 1 \<and>
      count_Id (fst (snd run') ''instances'') iid = 1"
    if us: "st (to_str uid @ ''_instances'') = JArr us" and gs: "st ''instances'' = JArr gs"
      and nn: "list_all (\<lambda>x. \<not> nullish x) (us @ gs)"
  proof -
    have nn': "\<forall>x \<in> set us \<union> set gs. \<not> nullish x"
      using nn by (auto simp: list_all_iff)
    from update_keyv_twice [OF us gs nn' img rd i i' refl refl]
    obtain t1 t2 where
      a: "updateDatabaseWithNewInstance (keyv ax u n) st rd uid node img memory cpu ports primary
            name iid Env imagedata = (Inr (), ?st1, t1)"
      and b: "updateDatabaseWithNewInstance (keyv ax' u' n') ?st1 rd' uid node img memory cpu ports
            primary name iid Env imagedata = (Inr (), ?st2, t2)"
      by blast
    have run: "run = (Inr (), ?st1, t1)" unfolding r a ..
    have run': "run' = (Inr (), ?st2, t2)" unfolding r' run using b by simp
    have id2: "get inst' ''Id'' = JStr iid" unfolding i' by (rule instanceData_Id)
    have c: "count_Id (?st2 (to_str uid @ ''_instances'')) iid = 1"
      "count_Id (?st2 ''instances'') iid = 1"
      by (simp_all add: key_distinct count_Id_snoc [OF id2])
    show ?thesis
      unfolding run run' using c by simp
  qed
  have absent: "(\<exists>e. fst run = Inl e \<and> is_TypeError e) \<and> fst (snd run) = st \<and>
      (\<exists>e. fst run' = Inl e \<and> is_TypeError e) \<and> fst (snd run') = st"
    if "st (to_str uid @ ''_instances'') = JUndefined \<or> st ''instances'' = JUndefined"
  proof -
    have h: "kv_get (keyv ax u n) st (to_str uid @ ''_instances'') = JUndefined
           \<or> kv_get (keyv ax u n) st ''instances'' = JUndefined" for ax u n
      using that by simp
    from update_absent [OF h [of ax u n], of rd node img memory cpu ports primary name iid Env
        imagedata]
    obtain e1 t1 where a: "run = (Inl e1, st, t1)" and e1: "is_TypeError e1"
      unfolding r by blast
    from update_absent [OF h [of ax' u' n'], of rd' node img memory cpu ports primary name iid Env
        imagedata]
    obtain e2 t2 where b: "run' = (Inl e2, st, t2)" and e2: "is_TypeError e2"
      unfolding r' a by auto
    show ?thesis
      unfolding a b using e1 e2 by simp
  qed
  from present absent show ?thesis by blast
qed

theorem redeploy_replaces_witness:
  "ex_store ''u1_instances'' = JArr [ex_instance, ex_instance] \<and>
   ex_store ''instances'' = JArr [ex_other, ex_instance] \<and>
   list_all (\<lambda>x. \<not> nullish x) ([ex_instance, ex_instance] @ [ex_other, ex_instance]) \<and>
   fst (snd (updateDatabaseWithNewInstance ex_env
        (fst (snd (updateDatabaseWithNewInstance ex_env ex_store ex_response (JStr ''u1'') ex_node
           ''nginx'' (JStr ''512'') (JStr ''1'') (JStr ''80:8080'') (JStr ''80'') (JStr ''web'')
           ''i1'' (JArr []) JUndefined)))
        ex_response (JStr ''u1'') ex_node ''nginx'' (JStr ''512'') (JStr ''1'') (JStr ''80:8080'')
        (JStr ''80'') (JStr ''web'') ''i1'' (JArr []) JUndefined))
     = ex_store(''u1_instances'' := JArr [ex_new], ''instances'' := JArr [ex_other, ex_new],
                ''i1_instance'' := ex_new) \<and>
   ex_store_new_user ''u1_instances'' = JUndefined \<and>
   fst (snd (updateDatabaseWithNewInstance ex_env
        (fst (snd (updateDatabaseWithNewInstance ex_env ex_store_new_user ex_response (JStr ''u1'')
           ex_node ''nginx'' (JStr ''512'') (JStr ''1'') (JStr ''80:8080'') (JStr ''80'')
           (JStr ''web'') ''i1'' (JArr []) JUndefined)))
        ex_response (JStr ''u1'') ex_node ''nginx'' (JStr ''512'') (JStr ''1'') (JStr ''80:8080'')
        (JStr ''80'') (JStr ''web'') ''i1'' (JArr []) JUndefined))
     = ex_store_new_user \<and>
   count_Id (ex_store_new_user ''u1_instances'') ''i1'' = 0"
proof -
  have us: "ex_store (to_str (JStr ''u1'') @ ''_instances'') = JArr [ex_instance, ex_instance]"
    by (simp add: ex_store_simps)
  have nn: "list_all (\<lambda>x. \<not> nullish x) ([ex_instance, ex_instance] @ [ex_other, ex_instance])"
    by (simp add: ex_values)
  have img: "find_Image (js_or (ex_store ''images'') (JArr [])) ''nginx'' = Inr ex_image"
    by (simp add: ex_store_simps ex_values)
  have s: "ex_store_new_user ''images'' = JArr [ex_image]"
    "ex_store_new_user (to_str (JStr ''u1'') @ ''_instances'') = JUndefined"
    by (simp_all add: ex_store_new_user_def ex_store_simps)
  have img': "find_Image (js_or (ex_store_new_user ''images'') (JArr [])) ''nginx'' = Inr ex_image"
    by (simp add: s ex_values)
  have i: "instanceData ex_env
      (js_or ex_image (JObj [(''AltImages'', JArr [])])) (get ex_response ''containerId'')
      (JStr ''u1'') ex_node ''nginx'' (JStr ''512'') (JStr ''1'') (JStr ''80:8080'') (JStr ''80'')
      (JStr ''web'') ''i1'' (JArr []) JUndefined = ex_new"
    unfolding ex_values by (rule ex_instanceData [OF ex_env_simps(5)])
  have k: "filter (\<lambda>x. get x ''Id'' \<noteq> JStr ''i1'') [ex_instance, ex_instance] = []"
    "filter (\<lambda>x. get x ''Id'' \<noteq> JStr ''i1'') [ex_other, ex_instance] = [ex_other]"
    by (simp_all add: ex_values)
  have z: "count_Id (ex_store_new_user ''u1_instances'') ''i1'' = 0"
    using s(2) by (simp add: count_Id_def)
  note present = redeploy_replaces [where st = ex_store and img = "''nginx''"
      and found = ex_image and rd = ex_response and rd' = ex_response
      and ax = ex_agent and u = "''u-1''" and n = "''2024-01-01T00:00:00.000Z''"
      and ax' = ex_agent and u' = "''u-1''" and n' = "''2024-01-01T00:00:00.000Z''"
      and uid = "JStr ''u1''" and node = ex_node and memory = "JStr ''512''" and cpu = "JStr ''1''"
      and ports = "JStr ''80:8080''" and primary = "JStr ''80''" and name = "JStr ''web''"
      and iid = "''i1''" and Env = "JArr []" and imagedata = JUndefined
      and us = "[ex_instance, ex_instance]" and gs = "[ex_other, ex_instance]",
      OF img ex_values(14) ex_values(14) refl refl refl refl]
  note absent = redeploy_replaces [where st = ex_store_new_user and img = "''nginx''"
      and found = ex_image and rd = ex_response and rd' = ex_response
      and ax = ex_agent and u = "''u-1''" and n = "''2024-01-01T00:00:00.000Z''"
      and ax' = ex_agent and u' = "''u-1''" and n' = "''2024-01-01T00:00:00.000Z''"
      and uid = "JStr ''u1''" and node = ex_node and memory = "JStr ''512''" and cpu = "JStr ''1''"
      and ports = "JStr ''80:8080''" and primary = "JStr ''80''" and name = "JStr ''web''"
      and iid = "''i1''" and Env = "JArr []" and imagedata = JUndefined,
      OF img' ex_values(14) ex_values(14) refl refl refl refl]
  have q: "to_str (JStr ''u1'') @ ''_instances'' = ''u1_instances''"
    "''i1'' @ ''_instance'' = ''i1_instance''"
    "[] @ [ex_new] = [ex_new]" "[ex_other] @ [ex_new] = [ex_other, ex_new]"
    by simp_all
  note present' = present [unfolded ex_env_def [symmetric] i k q]
  note absent' = absent [unfolded ex_env_def [symmetric] q]
  have p: "fst (snd (updateDatabaseWithNewInstance ex_env
        (fst (snd (updateDatabaseWithNewInstance ex_env ex_store ex_response (JStr ''u1'') ex_node
           ''nginx'' (JStr ''512'') (JStr ''1'') (JStr ''80:8080'') (JStr ''80'') (JStr ''web'')
           ''i1'' (JArr []) JUndefined)))
        ex_response (JStr ''u1'') ex_node ''nginx'' (JStr ''512'') (JStr ''1'') (JStr ''80:8080'')
        (JStr ''80'') (JStr ''web'') ''i1'' (JArr []) JUndefined))
     = ex_store(''u1_instances'' := JArr [ex_new], ''instances'' := JArr [ex_other, ex_new],
                ''i1_instance'' := ex_new)"
    using present' ex_store_simps(4,5) nn by blast
  have a: "fst (snd (updateDatabaseWithNewInstance ex_env
        (fst (snd (updateDatabaseWithNewInstance ex_env ex_store_new_user ex_response (JStr ''u1'')
           ex_node ''nginx'' (JStr ''512'') (JStr ''1'') (JStr ''80:8080'') (JStr ''80'')
           (JStr ''web'') ''i1'' (JArr []) JUndefined)))
        ex_response (JStr ''u1'') ex_node ''nginx'' (JStr ''512'') (JStr ''1'') (JStr ''80:8080'')
        (JStr ''80'') (JStr ''web'') ''i1'' (JArr []) JUndefined))
     = ex_store_new_user"
    using absent' s(2) [unfolded q] by blast
  show ?thesis
    using p a z nn s(2) [unfolded q] ex_store_simps(4,5) by blast
qed

subsection \<open>The handler\<close>

lemma prepare_trace:
  "prepareRequestData env st img memory cpu ports name node iid cid Env = (r, t) \<Longrightarrow>
   DbSet k v \<in> set t \<Longrightarrow> False"
  by (auto simp: prepareRequestData_def split: sum.splits)

lemma resolve_trace: "DbSet k v \<notin> set (snd (handler_resolve env st u req))"
  by (auto simp: handler_resolve_def Let_def split: sum.splits option.splits prod.splits if_splits
           dest: prepare_trace)

lemma no_DbSet_writes: "(\<And>k v. DbSet k v \<notin> set t) \<Longrightarrow> db_writes t = []"
  by (induction t rule: db_writes.induct) auto

lemma resolve_writes: "db_writes (snd (handler_resolve env st u req)) = []"
  by (rule no_DbSet_writes) (rule resolve_trace)

lemma prepare_post:
  "prepareRequestData env st img memory cpu ports name node iid cid Env = (Inr rq, tp) \<Longrightarrow>
   http_method rq = ''post''"
  by (auto simp: prepareRequestData_def prepare_body_def Let_def
           split: sum.splits if_splits prod.splits)

lemma resolve_post:
  "handler_resolve env st u req = (Continue c, t) \<Longrightarrow>
   \<exists>rq. http_method rq = ''post'' \<and> axios env rq = Inr (ctx_response c) \<and> Http rq \<in> set t"
  by (auto simp: handler_resolve_def Let_def split: sum.splits option.splits prod.splits if_splits
           dest: prepare_post)

lemma ex_prepare_gen:
  assumes "kv_get env st ''images'' = JArr [ex_image]"
  shows "\<exists>rq. prepareRequestData env st ''nginx'' (JStr ''512'') (JStr ''1'') (JStr ''80:8080'')
      (JStr ''web'') ex_node ''i1'' (JStr ''c1'') (JArr []) = (Inr rq, [DbGet ''images''])
     \<and> http_method rq = ''post''"
  using assms
  by (simp add: prepareRequestData_def prepare_body_def ex_node_def ex_image_def
        find_Image_def js_defs process_ports_def portMapping_check_def parse_defs)

lemma ex_resolve_gen:
  assumes "kv_get env st ''i1_instance'' = ex_instance" "kv_get env st ''n1_node'' = ex_node"
    "kv_get env st ''images'' = JArr [ex_image]" "axios env = ex_agent"
  shows "fst (handler_resolve env st ex_user ex_request) = Continue ex_ctx"
proof -
  obtain rq where rq: "prepareRequestData env st ''nginx'' (JStr ''512'') (JStr ''1'')
      (JStr ''80:8080'') (JStr ''web'') ex_node ''i1'' (JStr ''c1'') (JArr [])
      = (Inr rq, [DbGet ''images''])" and m: "http_method rq = ''post''"
    using ex_prepare_gen [OF assms(3)] by blast
  have ag: "ex_agent rq = Inr \<lparr>status = 200, data = ex_response\<rparr>"
    using m by (simp add: ex_agent_def ex_response_def)
  have chk: "ex_agent (node_request ''get'' ex_node (JStr ''c1''))
      = Inr \<lparr>status = 200, data = JObj [(''Id'', JStr ''c1'')]\<rparr>"
    by (simp add: ex_agent_def node_request_def)
  show ?thesis
    unfolding handler_resolve_def Let_def
    by (simp add: ex_request_simps db_get_def assms ex_values chk qv_def rq ag ex_ctx_def)
qed

lemma ex_persist_lists:
  assumes "kv_get env st ''u1_instances'' = JArr [ex_instance, ex_instance]"
    and "kv_get env st ''instances'' = JArr gs" and "\<forall>x \<in> set gs. \<not> nullish x"
    and "kv_get env st ''images'' = JArr [ex_image]"
    and "now env = ''2024-01-01T00:00:00.000Z''"
  shows "persist_lists env st ex_request ex_ctx =
     (Inr (ex_new, [ex_new], filter (\<lambda>x. get x ''Id'' \<noteq> JStr ''i1'') gs @ [ex_new]),
      [DbGet ''images'', DbGet ''u1_instances'', DbGet ''instances''])"
proof -
  have us: "kv_get env st (to_str (JStr ''u1'') @ ''_instances'') = JArr [ex_instance, ex_instance]"
    using assms(1) by simp
  have nn: "\<forall>x \<in> set [ex_instance, ex_instance] \<union> set gs. \<not> nullish x"
    using assms(3) by (simp add: ex_values)
  have img: "find_Image (js_or (kv_get env st ''images'') (JArr [])) ''nginx'' = Inr ex_image"
    using assms(4) by (simp add: ex_values)
  show ?thesis
    unfolding persist_lists_def ex_request_simps ex_ctx_simps qv_def option.case ex_values
    using update_lists_ok [OF us assms(2) nn img ex_values(14), of ex_node "JStr ''512''" "JStr ''1''"
        "JStr ''80:8080''" "JStr ''80''" "JStr ''web''" "''i1''" "JArr []" JUndefined]
    by (simp add: Let_def ex_values ex_instanceData [OF assms(5)])
qed

lemma ex_persist_ok: "fst (persist_call ex_env ex_store ex_request ex_ctx) = Inr ()"
proof -
  have us: "ex_store (to_str (JStr ''u1'') @ ''_instances'') = JArr [ex_instance, ex_instance]"
    by (simp add: ex_store_simps)
  have nn: "\<forall>x \<in> set [ex_instance, ex_instance] \<union> set [ex_other, ex_instance]. \<not> nullish x"
    by (simp add: ex_values)
  have img: "find_Image (js_or (ex_store ''images'') (JArr [])) ''nginx'' = Inr ex_image"
    by (simp add: ex_store_simps ex_values)
  from update_keyv_effect [OF us ex_store_simps(5) nn img ex_values(14)]
  show ?thesis
    unfolding persist_call_def ex_request_simps ex_ctx_simps qv_def option.case ex_env_def
    by (metis fst_conv)
qed

lemma ex_validate: "validateRedeploymentParams ex_request = None"
proof -
  have m: "missingParams (query ex_request) = []"
    by (simp add: missingParams_def ex_request_simps qv_def)
  have p: "rx_test portRegex ''80:8080''"
    by (simp add: rx_test_def portRegex_def portPair_def RPlus_def is_digit_def code_def)
  have n: "parseInt ''512'' = Some 512" "parseInt ''1'' = Some 1"
    by (simp_all add: parse_defs)
  show ?thesis
    unfolding validateRedeploymentParams_def Let_def
    by (simp add: m p n ex_request_simps qv_def isNaN_def)
qed

text \<open>
  C4. As the specification has it, an instance record with no node id is answered 400 with
  \<^verbatim>\<open>Instance has no associated node\<close>, before any other read or request and with no
  audit record. The handler reads \<^verbatim>\<open>instance.Node.id\<close> and then tests the id. When the
  record has a \<^verbatim>\<open>Node\<close> whose \<^verbatim>\<open>id\<close> is absent (or otherwise falsy), the answer is that
  400 and all the handler has done is the one read of the instance record. When the record
  has no \<^verbatim>\<open>Node\<close> at all, the read throws and the \<^verbatim>\<open>catch\<close> around the handler answers
  500 with the message of the TypeError; there too nothing is read or sent after the
  instance record, nothing is written and there is no audit record.
\<close>

theorem no_node_id:
  assumes inst: "truthy (kv_get env st (params_id req @ ''_instance''))"
    and absent: "\<not> truthy (get (get (kv_get env st (params_id req @ ''_instance'')) ''Node'') ''id'')"
  shows "(\<not> nullish (get (kv_get env st (params_id req @ ''_instance'')) ''Node'') \<longrightarrow>
            redeploy_handler env st u req =
              (Json 400 (JObj [(''error'', JStr ''Instance has no associated node'')]), st,
               [DbGet (params_id req @ ''_instance'')])) \<and>
         (nullish (get (kv_get env st (params_id req @ ''_instance'')) ''Node'') \<longrightarrow>
            (\<exists>m. redeploy_handler env st u req =
              (Json 500 (JObj [(''error'', JStr ''Instance redeployment failed''),
                               (''details'', JObj [(''message'', JStr m)]),
                               (''suggestion'', JStr ''Check logs for more details and try again'')]),
               st,
               [DbGet (params_id req @ ''_instance''),
                ConsoleError ''Redeployment process error:''])))"
proof (cases "nullish (get (kv_get env st (params_id req @ ''_instance'')) ''Node'')")
  case True
  then obtain m where "read_prop (get (kv_get env st (params_id req @ ''_instance'')) ''Node'') ''id''
      = Inl (TypeError m)"
    using read_prop_nullish by blast
  then have "redeploy_handler env st u req =
      (Json 500 (JObj [(''error'', JStr ''Instance redeployment failed''),
                       (''details'', JObj [(''message'', JStr m)]),
                       (''suggestion'', JStr ''Check logs for more details and try again'')]),
       st,
       [DbGet (params_id req @ ''_instance''), ConsoleError ''Redeployment process error:''])"
    using inst
    by (simp add: redeploy_handler_def handler_resolve_def Let_def db_get_def catch_all_def
          errorDetails_def)
  with True show ?thesis by blast
next
  case False
  then have "read_prop (get (kv_get env st (params_id req @ ''_instance'')) ''Node'') ''id''
      = Inr (get (get (kv_get env st (params_id req @ ''_instance'')) ''Node'') ''id'')"
    by (rule read_prop_get)
  then have "redeploy_handler env st u req =
      (Json 400 (JObj [(''error'', JStr ''Instance has no associated node'')]), st,
       [DbGet (params_id req @ ''_instance'')])"
    using inst absent
    by (simp add: redeploy_handler_def handler_resolve_def Let_def db_get_def)
  with False show ?thesis by blast
qed

theorem no_node_id_witness:
  "truthy (kv_get ex_env ex_store_no_node_id (params_id ex_request @ ''_instance'')) \<and>
   get (kv_get ex_env ex_store_no_node_id (params_id ex_request @ ''_instance'')) ''Node''
     = JObj [(''address'', JStr ''10.0.0.5'')] \<and>
   redeploy_handler ex_env ex_store_no_node_id ex_user ex_request =
     (Json 400 (JObj [(''error'', JStr ''Instance has no associated node'')]), ex_store_no_node_id,
      [DbGet ''i1_instance'']) \<and>
   truthy (kv_get ex_env ex_store_no_node (params_id ex_request @ ''_instance'')) \<and>
   get (kv_get ex_env ex_store_no_node (params_id ex_request @ ''_instance'')) ''Node'' = JUndefined \<and>
   redeploy_handler ex_env ex_store_no_node ex_user ex_request =
     (Json 500 (JObj [(''error'', JStr ''Instance redeployment failed''),
                      (''details'', JObj [(''message'',
                         JStr ''Cannot read properties of undefined (reading id)'')]),
                      (''suggestion'', JStr ''Check logs for more details and try again'')]),
      ex_store_no_node,
      [DbGet ''i1_instance'', ConsoleError ''Redeployment process error:''])"
proof -
  have a: "truthy (kv_get ex_env ex_store_no_node_id (params_id ex_request @ ''_instance''))"
    by (simp add: ex_env_simps ex_request_simps ex_store_no_node_id_def)
  have b: "get (kv_get ex_env ex_store_no_node_id (params_id ex_request @ ''_instance'')) ''Node''
      = JObj [(''address'', JStr ''10.0.0.5'')]"
    by (simp add: ex_env_simps ex_request_simps ex_store_no_node_id_def get_def)
  have c: "\<not> truthy (get (get (kv_get ex_env ex_store_no_node_id
      (params_id ex_request @ ''_instance'')) ''Node'') ''id'')"
    unfolding b by (simp add: get_def)
  have a': "truthy (kv_get ex_env ex_store_no_node (params_id ex_request @ ''_instance''))"
    by (simp add: ex_env_simps ex_request_simps ex_store_no_node_def)
  have b': "get (kv_get ex_env ex_store_no_node (params_id ex_request @ ''_instance'')) ''Node''
      = JUndefined"
    by (simp add: ex_env_simps ex_request_simps ex_store_no_node_def get_def)
  have c': "\<not> truthy (get (get (kv_get ex_env ex_store_no_node
      (params_id ex_request @ ''_instance'')) ''Node'') ''id'')"
    unfolding b' by (simp add: get_def)
  have run: "redeploy_handler ex_env ex_store_no_node ex_user ex_request =
     (Json 500 (JObj [(''error'', JStr ''Instance redeployment failed''),
                      (''details'', JObj [(''message'',
                         JStr ''Cannot read properties of undefined (reading id)'')]),
                      (''suggestion'', JStr ''Check logs for more details and try again'')]),
      ex_store_no_node,
      [DbGet ''i1_instance'', ConsoleError ''Redeployment process error:''])"
    by (simp add: redeploy_handler_def handler_resolve_def Let_def db_get_def ex_env_simps
          ex_request_simps ex_store_no_node_def get_def catch_all_def errorDetails_def)
  from no_node_id [OF a c, of ex_user] no_node_id [OF a' c', of ex_user]
  show ?thesis
    using a b a' b' run by (simp add: ex_request_simps nullish_def)
qed

lemma continues_needs:
  assumes "continues (fst (handler_resolve env st u req))"
  shows "\<exists>nodeId img shortimage r rq resp.
     truthy (kv_get env st (params_id req @ ''_instance'')) \<and>
     read_prop (get (kv_get env st (params_id req @ ''_instance'')) ''Node'') ''id'' = Inr nodeId \<and>
     truthy nodeId \<and>
     query req ''image'' = Some img \<and> image_match img = Some shortimage \<and>
     truthy (kv_get env st (to_str nodeId @ ''_node'')) \<and>
     axios env (node_request ''get'' (kv_get env st (to_str nodeId @ ''_node''))
                  (get (kv_get env st (params_id req @ ''_instance'')) ''ContainerId'')) = Inr r \<and>
     truthy (data r) \<and>
     fst (prepareRequestData env st shortimage (qv (query req ''memory'')) (qv (query req ''cpu''))
            (qv (query req ''ports'')) (qv (query req ''name''))
            (kv_get env st (to_str nodeId @ ''_node'')) (params_id req)
            (get (kv_get env st (params_id req @ ''_instance'')) ''ContainerId'')
            (get (kv_get env st (params_id req @ ''_instance'')) ''Env'')) = Inr rq \<and>
     axios env rq = Inr resp"
  using assms
  by (auto simp: handler_resolve_def Let_def continues_def db_get_def
           split: sum.splits option.splits prod.splits if_splits)

lemma continues_when:
  assumes "truthy (kv_get env st (params_id req @ ''_instance''))"
    and "read_prop (get (kv_get env st (params_id req @ ''_instance'')) ''Node'') ''id'' = Inr nodeId"
    and "truthy nodeId"
    and "query req ''image'' = Some img" and "image_match img = Some shortimage"
    and "truthy (kv_get env st (to_str nodeId @ ''_node''))"
    and "axios env (node_request ''get'' (kv_get env st (to_str nodeId @ ''_node''))
                  (get (kv_get env st (params_id req @ ''_instance'')) ''ContainerId'')) = Inr r"
    and "truthy (data r)"
    and "fst (prepareRequestData env st shortimage (qv (query req ''memory'')) (qv (query req ''cpu''))
            (qv (query req ''ports'')) (qv (query req ''name''))
            (kv_get env st (to_str nodeId @ ''_node'')) (params_id req)
            (get (kv_get env st (params_id req @ ''_instance'')) ''ContainerId'')
            (get (kv_get env st (params_id req @ ''_instance'')) ''Env'')) = Inr rq"
    and "axios env rq = Inr resp"
  shows "continues (fst (handler_resolve env st u req))"
  using assms
  by (auto simp: handler_resolve_def Let_def continues_def db_get_def
           split: sum.splits option.splits prod.splits)

text \<open>
  C9. When the handler ends before the update of the store, for whatever reason (no
  instance record, no node id, no image name in parentheses, no node record, a failed
  container check, an error while the request is prepared, a failed redeploy call), the
  store is the one it started with and no write has been made. The two lemmas before say what
  must all have gone well for the handler to get to the update, and that this is enough.
\<close>

theorem no_write_before_persist:
  assumes "\<not> continues (fst (handler_resolve env st u req))"
  shows "fst (snd (redeploy_handler env st u req)) = st \<and>
         db_writes (snd (snd (redeploy_handler env st u req))) = []"
proof (cases "handler_resolve env st u req")
  case (Pair r t)
  have t: "db_writes t = []"
    using resolve_writes [of env st u req] Pair by simp
  from assms Pair show ?thesis
    using t by (cases r) (simp_all add: redeploy_handler_def continues_def db_writes_append)
qed

theorem no_write_before_persist_witness:
  "\<not> continues (fst (handler_resolve ex_env ex_store_empty ex_user ex_request)) \<and>
   fst (redeploy_handler ex_env ex_store_empty ex_user ex_request)
     = Redirect 404 ''/admin/instances?error=instance_not_found'' \<and>
   fst (snd (redeploy_handler ex_env ex_store_empty ex_user ex_request)) = ex_store_empty \<and>
   db_writes (snd (snd (redeploy_handler ex_env ex_store_empty ex_user ex_request))) = []"
proof -
  have r: "fst (handler_resolve ex_env ex_store_empty ex_user ex_request)
             = Responded (Redirect 404 ''/admin/instances?error=instance_not_found'')"
    by (simp add: handler_resolve_def Let_def db_get_def ex_env_simps ex_store_empty_def)
  then have h: "\<not> continues (fst (handler_resolve ex_env ex_store_empty ex_user ex_request))"
    by (simp add: continues_def)
  have a: "fst (redeploy_handler ex_env ex_store_empty ex_user ex_request)
     = Redirect 404 ''/admin/instances?error=instance_not_found''"
    using r by (cases "handler_resolve ex_env ex_store_empty ex_user ex_request")
      (simp add: redeploy_handler_def)
  show ?thesis
    using no_write_before_persist [OF h] h a by simp
qed

lemma some_loop_shaped:
  "list_all (\<lambda>x. \<not> nullish x) xs \<Longrightarrow>
   some_loop xs iid = Inr (\<not> list_all (\<lambda>x. get x ''Id'' \<noteq> JStr iid) xs)"
  by (induction xs) (simp_all add: read_prop_get)

lemma some_Id_shaped:
  "list_shaped v \<Longrightarrow> \<exists>r. some_Id v iid = Inr r \<and> truthy r = (\<not> lacks_entry v iid)"
  by (cases v) (simp_all add: list_shaped_def lacks_entry_def some_Id_def some_loop_shaped)

lemma verification_failed_shaped:
  assumes "list_shaped v0" "list_shaped v1"
  shows "verification_failed [v0, v1, v2] iid =
           Inr (lacks_entry v0 iid \<or> lacks_entry v1 iid \<or> \<not> truthy v2)"
proof -
  from assms(1) obtain r0 where r0: "some_Id v0 iid = Inr r0" "truthy r0 = (\<not> lacks_entry v0 iid)"
    using some_Id_shaped by blast
  from assms(2) obtain r1 where r1: "some_Id v1 iid = Inr r1" "truthy r1 = (\<not> lacks_entry v1 iid)"
    using some_Id_shaped by blast
  show ?thesis
    using r0 r1 by (simp add: verification_failed_def)
qed

lemma update_lists_containerId:
  "update_lists env st rd uid node img memory cpu ports primary name iid Env imagedata = (Inr x, t)
   \<Longrightarrow> read_prop rd ''containerId'' = Inr (get rd ''containerId'')"
  by (auto simp: update_lists_def Let_def get_def split: sum.splits)

lemma update_ok_containerId:
  assumes "fst (updateDatabaseWithNewInstance env st rd uid node img memory cpu ports primary
      name iid Env imagedata) = Inr ()"
  shows "read_prop rd ''containerId'' = Inr (get rd ''containerId'')"
proof (cases "update_lists env st rd uid node img memory cpu ports primary name iid Env imagedata")
  case (Pair r t)
  show ?thesis
  proof (cases r)
    case (Inl e)
    with Pair assms show ?thesis
      by (simp add: updateDatabaseWithNewInstance_def update_body_def)
  next
    case (Inr x)
    with Pair have "update_lists env st rd uid node img memory cpu ports primary name iid Env
        imagedata = (Inr x, t)" by simp
    then show ?thesis by (rule update_lists_containerId)
  qed
qed

text \<open>
  C3. As the specification has it, the \<^verbatim>\<open>volumeId\<close> of the answer is the instance id; the code
  passes on the \<^verbatim>\<open>volumeId\<close> of the node agent's response. What holds: when the handler
  gets through to the update and the update succeeds, the answer is 201 with
  \<^verbatim>\<open>{containerId, volumeId, instanceId}\<close>, where \<^verbatim>\<open>containerId\<close> and \<^verbatim>\<open>volumeId\<close> are those
  of the response to the redeploy call and \<^verbatim>\<open>instanceId\<close> is the instance id, and the last
  thing the handler does is the audit record \<^verbatim>\<open>instance:redeploy\<close> with the instance id and
  the new container id.
\<close>

theorem success_envelope:
  assumes "fst (handler_resolve env st u req) = Continue c"
    and "fst (persist_call env st req c) = Inr ()"
  shows "redeploy_handler env st u req =
     (Json 201 (JObj [(''success'', JBool True),
                      (''message'', JStr ''Container redeployed successfully''),
                      (''data'', JObj [(''containerId'', get (data (ctx_response c)) ''containerId''),
                                       (''volumeId'', get (data (ctx_response c)) ''volumeId''),
                                       (''instanceId'', JStr (params_id req))])]),
      fst (snd (persist_call env st req c)),
      snd (handler_resolve env st u req) @ snd (snd (persist_call env st req c)) @
      [Audit (userId u) (username u) ''instance:redeploy'' (ip req)
         (JObj [(''instanceId'', JStr (params_id req)),
                (''newContainerId'', get (data (ctx_response c)) ''containerId'')])]) \<and>
     (\<exists>rq. http_method rq = ''post'' \<and> axios env rq = Inr (ctx_response c) \<and>
           Http rq \<in> set (snd (handler_resolve env st u req)))"
proof -
  obtain t0 where r: "handler_resolve env st u req = (Continue c, t0)"
    using assms(1) by (cases "handler_resolve env st u req") simp
  obtain st' tu where p: "persist_call env st req c = (Inr (), st', tu)"
    using assms(2) by (cases "persist_call env st req c") auto
  have cid: "read_prop (data (ctx_response c)) ''containerId''
               = Inr (get (data (ctx_response c)) ''containerId'')"
    using assms(2) unfolding persist_call_def by (rule update_ok_containerId)
  have post: "\<exists>rq. http_method rq = ''post'' \<and> axios env rq = Inr (ctx_response c) \<and>
           Http rq \<in> set (snd (handler_resolve env st u req))"
    using resolve_post [OF r] r by simp
  have "redeploy_handler env st u req =
     (Json 201 (JObj [(''success'', JBool True),
                      (''message'', JStr ''Container redeployed successfully''),
                      (''data'', JObj [(''containerId'', get (data (ctx_response c)) ''containerId''),
                                       (''volumeId'', get (data (ctx_response c)) ''volumeId''),
                                       (''instanceId'', JStr (params_id req))])]),
      fst (snd (persist_call env st req c)),
      snd (handler_resolve env st u req) @ snd (snd (persist_call env st req c)) @
      [Audit (userId u) (username u) ''instance:redeploy'' (ip req)
         (JObj [(''instanceId'', JStr (params_id req)),
                (''newContainerId'', get (data (ctx_response c)) ''containerId'')])])"
    by (simp add: redeploy_handler_def handler_persist_def Let_def r p cid)
  with post show ?thesis by blast
qed

theorem success_envelope_witness:
  "fst (handler_resolve ex_env ex_store ex_user ex_request) = Continue ex_ctx \<and>
   fst (persist_call ex_env ex_store ex_request ex_ctx) = Inr () \<and>
   fst (redeploy_handler ex_env ex_store ex_user ex_request) =
     Json 201 (JObj [(''success'', JBool True),
                     (''message'', JStr ''Container redeployed successfully''),
                     (''data'', JObj [(''containerId'', JStr ''c2''),
                                      (''volumeId'', JStr ''v1''),
                                      (''instanceId'', JStr ''i1'')])]) \<and>
   last (snd (snd (redeploy_handler ex_env ex_store ex_user ex_request))) =
     Audit ''a1'' ''root'' ''instance:redeploy'' ''::1''
       (JObj [(''instanceId'', JStr ''i1''), (''newContainerId'', JStr ''c2'')])"
proof -
  have h1: "fst (handler_resolve ex_env ex_store ex_user ex_request) = Continue ex_ctx"
    by (rule ex_resolve_gen) (simp_all add: ex_env_simps ex_store_simps)
  from success_envelope [OF h1 ex_persist_ok]
  show ?thesis
    using h1 ex_persist_ok
    by (simp add: ex_ctx_simps ex_values ex_request_simps ex_user_def)
qed

text \<open>
  The example request is answered with \<^verbatim>\<open>volumeId\<close> \<^verbatim>\<open>v1\<close>, as the node agent returned
  it, for the instance \<^verbatim>\<open>i1\<close>.
\<close>

theorem success_envelope_counterexample:
  "fst (redeploy_route ex_env ex_store ex_request) =
     Json 201 (JObj [(''success'', JBool True),
                     (''message'', JStr ''Container redeployed successfully''),
                     (''data'', JObj [(''containerId'', JStr ''c2''),
                                      (''volumeId'', JStr ''v1''),
                                      (''instanceId'', JStr ''i1'')])]) \<and>
   JStr ''v1'' \<noteq> JStr (params_id ex_request)"
proof -
  have a: "isAdmin ex_request = Inr ex_user"
    by (simp add: isAdmin_def ex_request_simps ex_user_def)
  obtain t0 where r: "handler_resolve ex_env ex_store ex_user ex_request = (Continue ex_ctx, t0)"
    using ex_resolve_gen [of ex_env ex_store]
    by (cases "handler_resolve ex_env ex_store ex_user ex_request")
       (simp add: ex_env_simps ex_store_simps)
  obtain st' tu where p: "persist_call ex_env ex_store ex_request ex_ctx = (Inr (), st', tu)"
    using ex_persist_ok by (cases "persist_call ex_env ex_store ex_request ex_ctx") auto
  have c: "read_prop ex_response ''containerId'' = Inr (JStr ''c2'')"
    by (simp add: ex_response_def)
  show ?thesis
    by (simp add: redeploy_route_def a ex_validate redeploy_handler_def r handler_persist_def
          Let_def p ex_ctx_simps c ex_values ex_request_simps)
qed

lemma some_loop_found:
  "some_loop xs iid = Inr True \<Longrightarrow> \<not> list_all (\<lambda>x. get x ''Id'' \<noteq> JStr iid) xs"
  by (induction xs) (auto split: sum.splits if_splits dest: read_prop_Inr)

lemma some_Id_found: "some_Id v iid = Inr r \<Longrightarrow> truthy r \<Longrightarrow> \<not> lacks_entry v iid"
  by (cases v) (auto simp: some_Id_def lacks_entry_def split: sum.splits dest: some_loop_found)

lemma verification_failed_lacking:
  assumes "lacks_entry v0 iid \<or> lacks_entry v1 iid \<or> \<not> truthy v2"
  shows "verification_failed [v0, v1, v2] iid \<noteq> Inr False"
proof
  assume f: "verification_failed [v0, v1, v2] iid = Inr False"
  then obtain r0 where r0: "some_Id v0 iid = Inr r0" "truthy r0"
    by (auto simp: verification_failed_def split: sum.splits if_splits)
  with f obtain r1 where r1: "some_Id v1 iid = Inr r1" "truthy r1"
    by (auto simp: verification_failed_def split: sum.splits if_splits)
  from f r0 r1 have "truthy v2"
    by (simp add: verification_failed_def)
  with assms some_Id_found [OF r0] some_Id_found [OF r1] show False by blast
qed

lemma update_verify_lacking:
  assumes "lacks_entry (kv_get env st (to_str uid @ ''_instances'')) iid
           \<or> lacks_entry (kv_get env st ''instances'') iid
           \<or> \<not> truthy (kv_get env st (iid @ ''_instance''))"
  shows "\<exists>e. update_verify env st uid iid = Inl e \<and>
           (is_TypeError e \<or> e = Error ''Database verification failed after update'') \<and>
           (list_shaped (kv_get env st (to_str uid @ ''_instances'')) \<and>
            list_shaped (kv_get env st ''instances'')
              \<longrightarrow> e = Error ''Database verification failed after update'')"
proof -
  let ?v0 = "kv_get env st (to_str uid @ ''_instances'')"
  let ?v1 = "kv_get env st ''instances''"
  let ?v2 = "kv_get env st (iid @ ''_instance'')"
  have nf: "verification_failed [?v0, ?v1, ?v2] iid \<noteq> Inr False"
    using assms by (rule verification_failed_lacking)
  have uv: "update_verify env st uid iid =
      (case verification_failed [?v0, ?v1, ?v2] iid of
         Inl e \<Rightarrow> Inl e
       | Inr failed \<Rightarrow>
           if failed then Inl (Error ''Database verification failed after update'') else Inr ())"
    by (simp add: update_verify_def Let_def Promise_all_def db_get_def)
  show ?thesis
  proof (cases "verification_failed [?v0, ?v1, ?v2] iid")
    case (Inl e)
    then have v: "update_verify env st uid iid = Inl e" by (simp add: uv)
    have te: "is_TypeError e" using Inl by (rule verification_failed_TypeError)
    have "e = Error ''Database verification failed after update''"
      if "list_shaped ?v0 \<and> list_shaped ?v1"
      using verification_failed_shaped [of ?v0 ?v1 ?v2 iid] that Inl by simp
    with v te show ?thesis by blast
  next
    case (Inr b)
    with nf have "b" by (cases b) simp_all
    with Inr have "update_verify env st uid iid
        = Inl (Error ''Database verification failed after update'')"
      by (simp add: uv)
    then show ?thesis by blast
  qed
qed

lemma resolve_ctx:
  "handler_resolve env st u req = (Continue c, t) \<Longrightarrow>
   \<exists>nodeId. read_prop (get (kv_get env st (params_id req @ ''_instance'')) ''Node'') ''id''
              = Inr nodeId \<and>
            ctx_node c = kv_get env st (to_str nodeId @ ''_node'') \<and>
            ctx_instance c = kv_get env st (params_id req @ ''_instance'')"
  by (auto simp: handler_resolve_def Let_def db_get_def
           split: sum.splits option.splits prod.splits if_splits)

text \<open>
  C2. When the handler gets through to the update, the three writes are made, and what is
  read back has no entry for the instance id in the user's list, or none in the global
  list, or no record under the instance's key, then the update throws: the verification
  error when the two values read back are lists of entries, a TypeError of the test
  otherwise. The handler then writes the audit record \<^verbatim>\<open>instance:redeploy_fail:db_update\<close>
  with the message of that error, sends a DELETE to
  \<^verbatim>\<open>http://{address}:{port}/instances/{containerId}\<close> with the user name \<^verbatim>\<open>Skyport\<close> and
  the node's \<^verbatim>\<open>apiKey\<close> as password, for the node record of the instance and the container
  id of the response to the redeploy call, and answers 500 with the message of the
  update's error. A failure of the DELETE adds one line on the console and changes
  nothing else.
\<close>

theorem verification_failure_compensated:
  assumes res: "fst (handler_resolve env st u req) = Continue c"
    and lists: "fst (persist_lists env st req c) = Inr (inst, uu, ug)"
    and st3: "st3 = update_writes env st (qv (query req ''user'')) (params_id req) inst uu ug"
    and lacking: "lacks_entry (kv_get env st3 (to_str (qv (query req ''user'')) @ ''_instances''))
                    (params_id req)
                  \<or> lacks_entry (kv_get env st3 ''instances'') (params_id req)
                  \<or> \<not> truthy (kv_get env st3 (params_id req @ ''_instance''))"
    and del: "del = \<lparr>http_method = ''delete'',
                     url = ''http://'' @ to_str (get (ctx_node c) ''address'') @ '':''
                           @ to_str (get (ctx_node c) ''port'') @ ''/instances/''
                           @ to_str (get (data (ctx_response c)) ''containerId''),
                     timeout = None,
                     auth_username = ''Skyport'',
                     auth_password = get (ctx_node c) ''apiKey'',
                     headers = [],
                     payload = JUndefined\<rparr>"
  shows "\<exists>e.
     (is_TypeError e \<or> e = Error ''Database verification failed after update'') \<and>
     (list_shaped (kv_get env st3 (to_str (qv (query req ''user'')) @ ''_instances'')) \<and>
      list_shaped (kv_get env st3 ''instances'')
        \<longrightarrow> e = Error ''Database verification failed after update'') \<and>
     redeploy_handler env st u req =
     (Json 500 (JObj [(''error'', JStr ''Instance redeployment failed''),
                      (''details'', JObj [(''message'', JStr (message e))]),
                      (''suggestion'', JStr ''Check logs for more details and try again'')]),
      st3,
      snd (handler_resolve env st u req) @ snd (persist_lists env st req c) @
      [DbSet (to_str (qv (query req ''user'')) @ ''_instances'') (JArr uu),
       DbSet ''instances'' (JArr ug),
       DbSet (params_id req @ ''_instance'') inst,
       DbGet (to_str (qv (query req ''user'')) @ ''_instances''),
       DbGet ''instances'',
       DbGet (params_id req @ ''_instance''),
       ConsoleError ''Database update error:'',
       ConsoleError ''Database update error:'',
       Audit (userId u) (username u) ''instance:redeploy_fail:db_update'' (ip req)
         (JObj [(''instanceId'', JStr (params_id req)), (''error'', JStr (message e))]),
       Http del] @
      (case axios env del of Inl e \<Rightarrow> [ConsoleError ''Rollback failed:''] | Inr r \<Rightarrow> []) @
      [ConsoleError ''Redeployment process error:'']) \<and>
     (\<exists>rq nodeId.
        http_method rq = ''post'' \<and> axios env rq = Inr (ctx_response c) \<and>
        Http rq \<in> set (snd (handler_resolve env st u req)) \<and>
        read_prop (get (kv_get env st (params_id req @ ''_instance'')) ''Node'') ''id''
          = Inr nodeId \<and>
        ctx_node c = kv_get env st (to_str nodeId @ ''_node''))"
proof -
  obtain t0 where r: "handler_resolve env st u req = (Continue c, t0)"
    using res by (cases "handler_resolve env st u req") simp
  obtain t1 where l: "persist_lists env st req c = (Inr (inst, uu, ug), t1)"
    using lists by (cases "persist_lists env st req c") simp
  have cid: "read_prop (data (ctx_response c)) ''containerId''
               = Inr (get (data (ctx_response c)) ''containerId'')"
    using l unfolding persist_lists_def by (rule update_lists_containerId)
  obtain e where v: "update_verify env st3 (qv (query req ''user'')) (params_id req) = Inl e"
    and kind: "is_TypeError e \<or> e = Error ''Database verification failed after update''"
    and shaped: "list_shaped (kv_get env st3 (to_str (qv (query req ''user'')) @ ''_instances'')) \<and>
                 list_shaped (kv_get env st3 ''instances'')
                   \<longrightarrow> e = Error ''Database verification failed after update''"
    using update_verify_lacking [OF lacking] by blast
  have ro: "response_of e = None"
    using kind by (cases e) (auto simp: is_TypeError_def)
  have p: "persist_call env st req c =
     (Inl e, st3,
      t1 @ [DbSet (to_str (qv (query req ''user'')) @ ''_instances'') (JArr uu),
            DbSet ''instances'' (JArr ug),
            DbSet (params_id req @ ''_instance'') inst,
            DbGet (to_str (qv (query req ''user'')) @ ''_instances''),
            DbGet ''instances'',
            DbGet (params_id req @ ''_instance''),
            ConsoleError ''Database update error:''])"
    using l v st3
    by (simp add: persist_call_def persist_lists_def updateDatabaseWithNewInstance_def
          update_body_def Let_def)
  have d: "node_request ''delete'' (ctx_node c) (get (data (ctx_response c)) ''containerId'') = del"
    unfolding del by (simp add: node_request_def)
  have post: "\<exists>rq nodeId.
        http_method rq = ''post'' \<and> axios env rq = Inr (ctx_response c) \<and>
        Http rq \<in> set (snd (handler_resolve env st u req)) \<and>
        read_prop (get (kv_get env st (params_id req @ ''_instance'')) ''Node'') ''id''
          = Inr nodeId \<and>
        ctx_node c = kv_get env st (to_str nodeId @ ''_node'')"
    using resolve_post [OF r] resolve_ctx [OF r] r by auto
  have run: "redeploy_handler env st u req =
     (Json 500 (JObj [(''error'', JStr ''Instance redeployment failed''),
                      (''details'', JObj [(''message'', JStr (message e))]),
                      (''suggestion'', JStr ''Check logs for more details and try again'')]),
      st3,
      snd (handler_resolve env st u req) @ snd (persist_lists env st req c) @
      [DbSet (to_str (qv (query req ''user'')) @ ''_instances'') (JArr uu),
       DbSet ''instances'' (JArr ug),
       DbSet (params_id req @ ''_instance'') inst,
       DbGet (to_str (qv (query req ''user'')) @ ''_instances''),
       DbGet ''instances'',
       DbGet (params_id req @ ''_instance''),
       ConsoleError ''Database update error:'',
       ConsoleError ''Database update error:'',
       Audit (userId u) (username u) ''instance:redeploy_fail:db_update'' (ip req)
         (JObj [(''instanceId'', JStr (params_id req)), (''error'', JStr (message e))]),
       Http del] @
      (case axios env del of Inl e \<Rightarrow> [ConsoleError ''Rollback failed:''] | Inr r \<Rightarrow> []) @
      [ConsoleError ''Redeployment process error:''])"
    by (simp add: redeploy_handler_def handler_persist_def Let_def r l p rollback_def cid d
          catch_all_def errorDetails_def ro split: sum.splits)
  from kind shaped run post show ?thesis by blast
qed

theorem verification_failure_compensated_witness:
  "fst (handler_resolve ex_lossy_env ex_store_stale ex_user ex_request) = Continue ex_ctx \<and>
   fst (persist_lists ex_lossy_env ex_store_stale ex_request ex_ctx)
     = Inr (ex_new, [ex_new], [ex_other, ex_new]) \<and>
   kv_get ex_lossy_env
       (update_writes ex_lossy_env ex_store_stale (qv (query ex_request ''user''))
          (params_id ex_request) ex_new [ex_new] [ex_other, ex_new]) ''instances''
     = JArr [ex_other] \<and>
   lacks_entry (JArr [ex_other]) (params_id ex_request) \<and>
   fst (redeploy_handler ex_lossy_env ex_store_stale ex_user ex_request) =
     Json 500 (JObj [(''error'', JStr ''Instance redeployment failed''),
                     (''details'', JObj [(''message'',
                                          JStr ''Database verification failed after update'')]),
                     (''suggestion'', JStr ''Check logs for more details and try again'')]) \<and>
   Http \<lparr>http_method = ''delete'', url = ''http://10.0.0.5:3002/instances/c2'', timeout = None,
         auth_username = ''Skyport'', auth_password = JStr ''k'', headers = [],
         payload = JUndefined\<rparr>
     \<in> set (snd (snd (redeploy_handler ex_lossy_env ex_store_stale ex_user ex_request))) \<and>
   Audit ''a1'' ''root'' ''instance:redeploy_fail:db_update'' ''::1''
       (JObj [(''instanceId'', JStr ''i1''),
              (''error'', JStr ''Database verification failed after update'')])
     \<in> set (snd (snd (redeploy_handler ex_lossy_env ex_store_stale ex_user ex_request))) \<and>
   ConsoleError ''Rollback failed:''
     \<in> set (snd (snd (redeploy_handler ex_lossy_env ex_store_stale ex_user ex_request)))"
proof -
  let ?st3 = "update_writes ex_lossy_env ex_store_stale (qv (query ex_request ''user''))
                (params_id ex_request) ex_new [ex_new] [ex_other, ex_new]"
  let ?del = "\<lparr>http_method = ''delete'', url = ''http://10.0.0.5:3002/instances/c2'',
               timeout = None, auth_username = ''Skyport'', auth_password = JStr ''k'',
               headers = [], payload = JUndefined\<rparr>"
  have h1: "fst (handler_resolve ex_lossy_env ex_store_stale ex_user ex_request) = Continue ex_ctx"
    by (rule ex_resolve_gen) (simp_all add: ex_lossy_simps ex_stale_simps)
  have h2: "fst (persist_lists ex_lossy_env ex_store_stale ex_request ex_ctx)
     = Inr (ex_new, [ex_new], [ex_other, ex_new])"
    using ex_persist_lists [of ex_lossy_env ex_store_stale "[ex_other]"]
    by (simp add: ex_lossy_simps ex_stale_simps ex_values)
  have st3: "?st3 = ex_store_stale(''u1_instances'' := JArr [ex_new], ''i1_instance'' := ex_new)"
    by (simp add: update_writes_def db_set_def ex_lossy_simps ex_request_simps qv_def)
  have nn: "\<not> nullish ex_new" by (simp add: ex_new_def nullish_def)
  have s1: "list_shaped (kv_get ex_lossy_env ?st3 (to_str (qv (query ex_request ''user'')) @ ''_instances''))"
    unfolding st3 by (simp add: ex_lossy_simps ex_request_simps qv_def list_shaped_def nn)
  have s2: "list_shaped (kv_get ex_lossy_env ?st3 ''instances'')"
    unfolding st3 by (simp add: ex_lossy_simps ex_stale_simps list_shaped_def ex_values)
  have g: "kv_get ex_lossy_env ?st3 ''instances'' = JArr [ex_other]"
    unfolding st3 by (simp add: ex_lossy_simps ex_stale_simps)
  have l: "lacks_entry (JArr [ex_other]) (params_id ex_request)"
    by (simp add: lacks_entry_def ex_values ex_request_simps)
  have l': "lacks_entry (kv_get ex_lossy_env ?st3 ''instances'') (params_id ex_request)"
    unfolding g by (rule l)
  have dl: "\<lparr>http_method = ''delete'',
             url = ''http://'' @ to_str (get (ctx_node ex_ctx) ''address'') @ '':''
                   @ to_str (get (ctx_node ex_ctx) ''port'') @ ''/instances/''
                   @ to_str (get (data (ctx_response ex_ctx)) ''containerId''),
             timeout = None, auth_username = ''Skyport'',
             auth_password = get (ctx_node ex_ctx) ''apiKey'',
             headers = [], payload = JUndefined\<rparr> = ?del"
    by (simp add: ex_ctx_simps ex_values, simp add: ex_node_def get_def show_3002)
  have d: "axios ex_lossy_env ?del = Inl (AxiosError ''connect ECONNREFUSED'' None)"
    by (simp add: ex_lossy_simps ex_agent_def)
  from verification_failure_compensated [OF h1 h2 refl disjI2 [OF disjI1 [OF l']] dl [symmetric]]
  obtain e where e: "list_shaped (kv_get ex_lossy_env ?st3
                        (to_str (qv (query ex_request ''user'')) @ ''_instances'')) \<and>
                     list_shaped (kv_get ex_lossy_env ?st3 ''instances'')
                       \<longrightarrow> e = Error ''Database verification failed after update''"
    and run: "redeploy_handler ex_lossy_env ex_store_stale ex_user ex_request =
     (Json 500 (JObj [(''error'', JStr ''Instance redeployment failed''),
                      (''details'', JObj [(''message'', JStr (message e))]),
                      (''suggestion'', JStr ''Check logs for more details and try again'')]),
      ?st3,
      snd (handler_resolve ex_lossy_env ex_store_stale ex_user ex_request) @
      snd (persist_lists ex_lossy_env ex_store_stale ex_request ex_ctx) @
      [DbSet (to_str (qv (query ex_request ''user'')) @ ''_instances'') (JArr [ex_new]),
       DbSet ''instances'' (JArr [ex_other, ex_new]),
       DbSet (params_id ex_request @ ''_instance'') ex_new,
       DbGet (to_str (qv (query ex_request ''user'')) @ ''_instances''),
       DbGet ''instances'',
       DbGet (params_id ex_request @ ''_instance''),
       ConsoleError ''Database update error:'',
       ConsoleError ''Database update error:'',
       Audit (userId ex_user) (username ex_user) ''instance:redeploy_fail:db_update''
         (ip ex_request)
         (JObj [(''instanceId'', JStr (params_id ex_request)), (''error'', JStr (message e))]),
       Http ?del] @
      (case axios ex_lossy_env ?del of Inl e \<Rightarrow> [ConsoleError ''Rollback failed:'']
       | Inr r \<Rightarrow> []) @
      [ConsoleError ''Redeployment process error:''])"
    by blast
  from e s1 s2 have m: "e = Error ''Database verification failed after update''" by blast
  have n: "userId ex_user = ''a1''" "username ex_user = ''root''"
    by (simp_all add: ex_user_def)
  show ?thesis
    using h1 h2 g l by (simp add: run m d ex_request_simps n)
qed

end
